theory Spec2Isabelle
  imports Main "HOL-Library.Char_ord" "HOL-Library.List_Lexorder"
begin

section \<open>Python values: exceptions and decimal rendering\<close>

text \<open>
  Exceptions of the Python source are values. The constructor is the exception class,
  the argument is the text that \<^verbatim>\<open>str(e)\<close> gives.
\<close>

datatype error =
    TypeError string
  | AttributeError string
  | OSError string
  | UnboundLocalError string
  | KeyError string
  | RemoteError string

fun str_of_error :: "error \<Rightarrow> string" where
  "str_of_error (TypeError m) = m"
| "str_of_error (AttributeError m) = m"
| "str_of_error (OSError m) = m"
| "str_of_error (UnboundLocalError m) = m"
| "str_of_error (KeyError m) = m"
| "str_of_error (RemoteError m) = m"

text \<open>
  \<^verbatim>\<open>f"{counter}"\<close> for a non-negative integer: decimal digits, no leading zero.
\<close>

definition digit_char :: "nat \<Rightarrow> char" where
  "digit_char d = ''0123456789'' ! d"

fun str_nat :: "nat \<Rightarrow> string" where
  "str_nat n = (if n < 10 then [digit_char n] else str_nat (n div 10) @ [digit_char (n mod 10)])"

declare str_nat.simps [simp del]

section \<open>auth\_and\_api.py: name sanitization in \<^verbatim>\<open>import_pbix\<close>\<close>

text \<open>
  \<^verbatim>\<open>s.replace(a, r)\<close> for a one-character pattern \<open>a\<close>: every occurrence of the
  character is replaced by the string \<open>r\<close> (the empty string removes it).
\<close>

definition py_replace :: "char \<Rightarrow> string \<Rightarrow> string \<Rightarrow> string" where
  "py_replace a r s = concat (map (\<lambda>c. if c = a then r else [c]) s)"

text \<open>
  \<^verbatim>\<open>c.isdigit()\<close>. A \<^typ>\<open>char\<close> is a code point below 256. In that range the digits of
  Python are the ten ASCII digits and the superscripts two, three and one (U+00B2, U+00B3,
  U+00B9).
\<close>

definition isdigit :: "char \<Rightarrow> bool" where
  "isdigit c = (c \<in> set ''0123456789'' \<or> c \<in> set [CHR 0xB2, CHR 0xB3, CHR 0xB9])"

abbreviation space_char :: char where "space_char \<equiv> CHR 0x20"
abbreviation slash_char :: char where "slash_char \<equiv> CHR 0x2F"
abbreviation backslash_char :: char where "backslash_char \<equiv> CHR 0x5C"
abbreviation dquote_char :: char where "dquote_char \<equiv> CHR 0x22"
abbreviation squote_char :: char where "squote_char \<equiv> CHR 0x27"

text \<open>
  Lines 267 to 273 of auth\_and\_api.py:
  \<^verbatim>\<open>
  report_name = report_name.replace(' ', '_').replace('/', '_').replace('\\', '_')
                           .replace('"', '').replace("'", "")
  if not report_name:
      report_name = "ImportedReport"
  if report_name and report_name[0].isdigit():
      report_name = f"Report_{report_name}"
  \<close>
\<close>

definition replace_unsafe :: "string \<Rightarrow> string" where
  "replace_unsafe report_name =
     py_replace squote_char ''''
       (py_replace dquote_char ''''
         (py_replace backslash_char ''_''
           (py_replace slash_char ''_''
             (py_replace space_char ''_'' report_name))))"

definition sanitize_report_name :: "string \<Rightarrow> string" where
  "sanitize_report_name report_name =
     (let report_name1 = replace_unsafe report_name;
          report_name2 = (if report_name1 = [] then ''ImportedReport'' else report_name1)
      in if report_name2 \<noteq> [] \<and> isdigit (hd report_name2)
         then ''Report_'' @ report_name2
         else report_name2)"

section \<open>Duplicate names: the two counter loops\<close>

text \<open>
  restore\_service.py, lines 89 to 96, inside the item loop of \<^verbatim>\<open>restore_reports_pbix\<close>:
  \<^verbatim>\<open>
  final_dataset_name = report_name
  if final_dataset_name in existing_datasets:
      counter = 1
      while f"{report_name}_{counter}" in existing_datasets:
          counter += 1
      final_dataset_name = f"{report_name}_{counter}"
      results["duplicate_handled"] += 1
  \<close>
  The \<^verbatim>\<open>while\<close> loop is \<open>free_counter\<close>; it ends because the candidates grow in
  length and the list of existing names is finite. An element of the list is a string or
  \<^verbatim>\<open>None\<close> (a dataset whose name is \<^verbatim>\<open>null\<close> in the listing), and \<^verbatim>\<open>None\<close> equals no
  string.
\<close>

definition suffixed :: "string \<Rightarrow> nat \<Rightarrow> string" where
  "suffixed report_name counter = report_name @ ''_'' @ str_nat counter"

function free_counter :: "string \<Rightarrow> string option list \<Rightarrow> nat \<Rightarrow> nat" where
  "free_counter report_name existing_datasets counter =
     (if Some (suffixed report_name counter) \<in> set existing_datasets
      then free_counter report_name existing_datasets (counter + 1)
      else counter)"
  by pat_completeness auto

lemma less_pow_length_str_nat: "n < 10 ^ length (str_nat n)"
proof (induction n rule: str_nat.induct)
  case (1 n)
  show ?case
  proof (cases "n < 10")
    case True
    then show ?thesis by (simp add: str_nat.simps [of n])
  next
    case False
    with 1 have "n div 10 < 10 ^ length (str_nat (n div 10))" by simp
    then have "n < 10 * 10 ^ length (str_nat (n div 10))" by simp
    with False show ?thesis by (simp add: str_nat.simps [of n])
  qed
qed

definition name_length :: "string option \<Rightarrow> nat" where
  "name_length v = (case v of None \<Rightarrow> 0 | Some x \<Rightarrow> length x)"

lemma length_le_sum_list: "Some x \<in> set xs \<Longrightarrow> length x \<le> sum_list (map name_length xs)"
  by (induction xs) (auto simp: name_length_def)

lemma suffixed_bound:
  assumes "Some (suffixed r c) \<in> set ex"
  shows "c < 10 ^ sum_list (map name_length ex)"
proof -
  have "length (str_nat c) \<le> length (suffixed r c)"
    by (simp add: suffixed_def)
  also have "\<dots> \<le> sum_list (map name_length ex)"
    using assms by (rule length_le_sum_list)
  finally have "length (str_nat c) \<le> sum_list (map name_length ex)" .
  then have "(10::nat) ^ length (str_nat c) \<le> 10 ^ sum_list (map name_length ex)"
    by (intro power_increasing) simp_all
  with less_pow_length_str_nat [of c] show ?thesis by linarith
qed

termination free_counter
proof (relation "measure (\<lambda>(r, ex, c). 10 ^ sum_list (map name_length ex) - c)")
  show "wf (measure (\<lambda>(r, ex, c). 10 ^ sum_list (map name_length ex) - c))" by simp
next
  fix report_name :: string and existing_datasets :: "string option list" and counter :: nat
  assume "Some (suffixed report_name counter) \<in> set existing_datasets"
  then have "counter < 10 ^ sum_list (map name_length existing_datasets)"
    by (rule suffixed_bound)
  then show "((report_name, existing_datasets, counter + 1), (report_name, existing_datasets, counter))
      \<in> measure (\<lambda>(r, ex, c). 10 ^ sum_list (map name_length ex) - c)"
    by simp
qed

declare free_counter.simps [simp del]

text \<open>The resolved name and whether a collision was counted.\<close>

definition resolve_name :: "string \<Rightarrow> string option list \<Rightarrow> string \<times> bool" where
  "resolve_name report_name existing_datasets =
     (if Some report_name \<in> set existing_datasets
      then (suffixed report_name (free_counter report_name existing_datasets 1), True)
      else (report_name, False))"

text \<open>
  auth\_and\_api.py, lines 305 to 310, inside \<^verbatim>\<open>import_pbix\<close>:
  \<^verbatim>\<open>
  counter = 1
  original_name = dataset_display_name
  while dataset_display_name in dataset_names:
      counter += 1
      dataset_display_name = f"{original_name}_{counter}"
  \<close>
\<close>

function display_name_loop ::
  "string \<Rightarrow> string option list \<Rightarrow> nat \<Rightarrow> string \<Rightarrow> string" where
  "display_name_loop original_name dataset_names counter dataset_display_name =
     (if Some dataset_display_name \<in> set dataset_names
      then display_name_loop original_name dataset_names (counter + 1)
             (suffixed original_name (counter + 1))
      else dataset_display_name)"
  by pat_completeness auto

termination display_name_loop
proof (relation "measure (\<lambda>(orig, names, c, n).
    if Some n \<in> set names then 1 + (10 ^ sum_list (map name_length names) + 1 - c) else 0)")
  show "wf (measure (\<lambda>(orig, names, c, n).
    if Some n \<in> set names then 1 + (10 ^ sum_list (map name_length names) + 1 - c) else (0::nat)))"
    by simp
next
  fix original_name :: string and dataset_names :: "string option list" and counter :: nat
    and dataset_display_name :: string
  assume inn: "Some dataset_display_name \<in> set dataset_names"
  show "((original_name, dataset_names, counter + 1, suffixed original_name (counter + 1)),
         (original_name, dataset_names, counter, dataset_display_name))
      \<in> measure (\<lambda>(orig, names, c, n).
           if Some n \<in> set names then 1 + (10 ^ sum_list (map name_length names) + 1 - c) else 0)"
  proof (cases "Some (suffixed original_name (counter + 1)) \<in> set dataset_names")
    case True
    then have "counter + 1 < 10 ^ sum_list (map name_length dataset_names)"
      by (rule suffixed_bound)
    with True inn show ?thesis by simp
  next
    case False
    with inn show ?thesis by simp
  qed
qed

declare display_name_loop.simps [simp del]

definition unique_display_name :: "string \<Rightarrow> string option list \<Rightarrow> string" where
  "unique_display_name dataset_display_name dataset_names =
     display_name_loop dataset_display_name dataset_names 1 dataset_display_name"

section \<open>The remote workspace and the file system\<close>

text \<open>
  Remote transport, token acquisition and the file system are collaborators outside the
  restore engine. They are a record of operations on a world \<open>'w\<close> about which nothing
  is assumed: each remote operation answers with a value or an exception and may change
  the world. The engine's state is the world together with the log of HTTP requests that
  were sent, so that a property such as "no update request is issued" can be stated.
\<close>

text \<open>
  An entry of the listing. The code reads the name in three ways, \<^verbatim>\<open>d.get('name')\<close>,
  \<^verbatim>\<open>d.get('name', '')\<close> and \<^verbatim>\<open>d['name']\<close>, which differ on a missing key and on
  \<^verbatim>\<open>null\<close>, so both cases are kept apart. The id is only read with \<^verbatim>\<open>d.get('id')\<close>, where
  a missing key and \<^verbatim>\<open>null\<close> both give \<^verbatim>\<open>None\<close>.
\<close>

datatype name_field = NoKey | NullName | Name string

record dataset =
  ds_name :: name_field
  ds_id :: "string option"

definition get_name :: "dataset \<Rightarrow> string option" where
  "get_name d = (case ds_name d of Name n \<Rightarrow> Some n | _ \<Rightarrow> None)"

definition get_name_or_empty :: "dataset \<Rightarrow> string option" where
  "get_name_or_empty d =
     (case ds_name d of NoKey \<Rightarrow> Some [] | NullName \<Rightarrow> None | Name n \<Rightarrow> Some n)"

definition index_name :: "dataset \<Rightarrow> error + string option" where
  "index_name d =
     (case ds_name d of
        NoKey \<Rightarrow> Inl (KeyError ([squote_char] @ ''name'' @ [squote_char]))
      | NullName \<Rightarrow> Inr None
      | Name n \<Rightarrow> Inr (Some n))"

record payload =
  p_days :: "string list"
  p_times :: "string list"
  p_enabled :: bool
  p_localTimeZoneId :: string
  p_notifyOption :: string

datatype remote_call =
    GetDatasets string
  | PatchRefreshSchedule string string payload
  | PostImport string string

record 'w api =
  auth_token :: "'w \<Rightarrow> (error + string) \<times> 'w"
  http_get_datasets :: "string \<Rightarrow> 'w \<Rightarrow> (error + dataset list) \<times> 'w"
  http_patch_schedule :: "string \<Rightarrow> string \<Rightarrow> payload \<Rightarrow> 'w \<Rightarrow> (error + nat) \<times> 'w"
  http_post_import :: "string \<Rightarrow> string \<Rightarrow> string \<Rightarrow> 'w \<Rightarrow> (error + nat) \<times> 'w"
  fs_exists :: "'w \<Rightarrow> string \<Rightarrow> bool"
  fs_glob_pbix :: "'w \<Rightarrow> string \<Rightarrow> error + string list"
  fs_read :: "'w \<Rightarrow> string \<Rightarrow> error + string"
  fs_stat_size :: "'w \<Rightarrow> string \<Rightarrow> error + nat"

record 'w st =
  world :: 'w
  calls :: "remote_call list"

text \<open>\<^verbatim>\<open>PowerBIAuthService.get_access_token\<close>: a token, or the exception it re-raises.\<close>

definition get_access_token :: "'w api \<Rightarrow> 'w st \<Rightarrow> (error + string) \<times> 'w st" where
  "get_access_token api s =
     (case auth_token api (world s) of (r, w') \<Rightarrow> (r, s\<lparr>world := w'\<rparr>))"

text \<open>
  \<^verbatim>\<open>PowerBIApiClient.get_datasets\<close> through \<^verbatim>\<open>_fetch_with_auth\<close>: the token first, then
  the GET request. The answer is the \<^verbatim>\<open>value\<close> array of the response, or the exception
  (transport failure, status 400 and above, unreadable body).
\<close>

definition get_datasets :: "'w api \<Rightarrow> string \<Rightarrow> 'w st \<Rightarrow> (error + dataset list) \<times> 'w st" where
  "get_datasets api workspace_id s =
     (case get_access_token api s of
        (Inl e, s1) \<Rightarrow> (Inl e, s1)
      | (Inr token, s1) \<Rightarrow>
          (case http_get_datasets api workspace_id (world s1) of
             (r, w') \<Rightarrow> (r, \<lparr>world = w', calls = calls s1 @ [GetDatasets workspace_id]\<rparr>)))"

section \<open>auth\_and\_api.py: \<^verbatim>\<open>update_refresh_schedule\<close>\<close>

text \<open>
  A schedule dictionary as it is read with \<^verbatim>\<open>.get(key, default)\<close>: every key may be
  missing.
\<close>

record schedule_config =
  sc_frequency :: "string option"
  sc_times :: "string list option"
  sc_days :: "string list option"
  sc_enabled :: "bool option"
  sc_localTimeZoneId :: "string option"
  sc_notifyOption :: "string option"

definition get_or :: "'a option \<Rightarrow> 'a \<Rightarrow> 'a" where
  "get_or v d = (case v of None \<Rightarrow> d | Some x \<Rightarrow> x)"

definition accepted_status :: "nat \<Rightarrow> bool" where
  "accepted_status status = (status \<in> set [200, 201, 202])"

text \<open>
  Lines 152 to 216 of auth\_and\_api.py. The three early \<^verbatim>\<open>return True\<close> come before
  any request; every exception after them is caught and gives \<^verbatim>\<open>False\<close>. The payload
  of lines 181 to 187 is \<open>build_payload\<close>.
\<close>

definition build_payload :: "schedule_config \<Rightarrow> payload" where
  "build_payload schedule_config =
     \<lparr>p_days = get_or (sc_days schedule_config) [],
      p_times = get_or (sc_times schedule_config) [],
      p_enabled = True,
      p_localTimeZoneId = get_or (sc_localTimeZoneId schedule_config) ''UTC'',
      p_notifyOption = get_or (sc_notifyOption schedule_config) ''MailOnFailure''\<rparr>"

definition update_refresh_schedule ::
  "'w api \<Rightarrow> string \<Rightarrow> string \<Rightarrow> schedule_config \<Rightarrow> 'w st \<Rightarrow> bool \<times> 'w st" where
  "update_refresh_schedule api workspace_id dataset_id schedule_config s =
     (let days = get_or (sc_days schedule_config) [];
          times = get_or (sc_times schedule_config) [];
          enabled = get_or (sc_enabled schedule_config) False
      in if \<not> enabled then (True, s)
         else if days = [] \<and> times = [] then (True, s)
         else if days = [] \<or> times = [] then (True, s)
         else
           (let payload = build_payload schedule_config
            in case get_access_token api s of
                 (Inl e, s1) \<Rightarrow> (False, s1)
               | (Inr token, s1) \<Rightarrow>
                   (case http_patch_schedule api workspace_id dataset_id payload (world s1) of
                      (r, w') \<Rightarrow>
                        (case r of Inl e \<Rightarrow> False | Inr status \<Rightarrow> accepted_status status,
                         \<lparr>world = w',
                          calls = calls s1 @ [PatchRefreshSchedule workspace_id dataset_id payload]\<rparr>))))"

section \<open>restore\_service.py: \<^verbatim>\<open>restore_refresh_schedules\<close>\<close>

record schedule_entry =
  se_dataset_name :: "string option"
  se_schedule :: "schedule_config option"

datatype schedule_detail =
    SkippedDetail "string option"
  | ConfiguredDetail "string option" string string "string list" "string list"
  | FailedDetail "string option" string string "string list" "string list"

fun detail_status :: "schedule_detail \<Rightarrow> string" where
  "detail_status (SkippedDetail n) = ''skipped''"
| "detail_status (ConfiguredDetail n i f t d) = ''configured''"
| "detail_status (FailedDetail n i f t d) = ''failed''"

fun detail_dataset :: "schedule_detail \<Rightarrow> string option" where
  "detail_dataset (SkippedDetail n) = n"
| "detail_dataset (ConfiguredDetail n i f t d) = n"
| "detail_dataset (FailedDetail n i f t d) = n"

record schedule_results =
  rr_status :: string
  rr_restored :: nat
  rr_failed :: nat
  rr_skipped :: nat
  rr_details :: "schedule_detail list"

text \<open>
  The name lookup table \<^verbatim>\<open>datasets\<close>. From the listing it is the dictionary
  comprehension \<^verbatim>\<open>{d.get('name'): d.get('id') for d in value}\<close> (a later entry of the same
  name wins; a missing name or id is \<^verbatim>\<open>None\<close>). When the listing raised it is
  \<^verbatim>\<open>dataset_mapping or {}\<close>.
\<close>

type_synonym lookup = "string option \<Rightarrow> string option option"

definition datasets_of_listing :: "dataset list \<Rightarrow> lookup" where
  "datasets_of_listing value_list = foldl (\<lambda>m d. m(get_name d \<mapsto> ds_id d)) Map.empty value_list"

definition mapping_or_empty :: "(string \<times> string) list option \<Rightarrow> lookup" where
  "mapping_or_empty dataset_mapping =
     (case dataset_mapping of
        None \<Rightarrow> Map.empty
      | Some m \<Rightarrow> (\<lambda>k. case k of None \<Rightarrow> None | Some n \<Rightarrow> map_option Some (map_of m n)))"

text \<open>\<^verbatim>\<open>dataset_mapping and dataset_name in dataset_mapping\<close>.\<close>

definition in_mapping :: "(string \<times> string) list option \<Rightarrow> string option \<Rightarrow> bool" where
  "in_mapping dataset_mapping dataset_name =
     (case dataset_mapping of
        None \<Rightarrow> False
      | Some m \<Rightarrow> m \<noteq> [] \<and> (case dataset_name of None \<Rightarrow> False | Some n \<Rightarrow> map_of m n \<noteq> None))"

text \<open>
  Lines 531 to 535:
  \<^verbatim>\<open>
  dataset_id = None
  if dataset_mapping and dataset_name in dataset_mapping:
      dataset_id = dataset_mapping[dataset_name]
  elif dataset_name in datasets:
      dataset_id = datasets[dataset_name]
  \<close>
\<close>

definition find_dataset_id ::
  "(string \<times> string) list option \<Rightarrow> lookup \<Rightarrow> string option \<Rightarrow> string option" where
  "find_dataset_id dataset_mapping datasets dataset_name =
     (if in_mapping dataset_mapping dataset_name
      then (case (dataset_mapping, dataset_name) of
              (Some m, Some n) \<Rightarrow> map_of m n
            | _ \<Rightarrow> None)
      else if datasets dataset_name \<noteq> None
      then (case datasets dataset_name of Some i \<Rightarrow> i | None \<Rightarrow> None)
      else None)"

text \<open>\<^verbatim>\<open>not dataset_id\<close>: \<^verbatim>\<open>None\<close> and the empty string are false.\<close>

definition falsy :: "string option \<Rightarrow> bool" where
  "falsy v = (case v of None \<Rightarrow> True | Some x \<Rightarrow> x = [])"

definition empty_config :: schedule_config where
  "empty_config = \<lparr>sc_frequency = None, sc_times = None, sc_days = None, sc_enabled = None,
                    sc_localTimeZoneId = None, sc_notifyOption = None\<rparr>"

text \<open>
  Lines 556 to 562: the dictionary handed to \<^verbatim>\<open>update_refresh_schedule\<close>, with the
  defaults of the five \<^verbatim>\<open>.get\<close> calls filled in.
\<close>

definition api_schedule_config :: "schedule_config \<Rightarrow> schedule_config" where
  "api_schedule_config schedule_config =
     \<lparr>sc_frequency = None,
      sc_times = Some (get_or (sc_times schedule_config) []),
      sc_days = Some (get_or (sc_days schedule_config) []),
      sc_enabled = Some (get_or (sc_enabled schedule_config) False),
      sc_localTimeZoneId = Some (get_or (sc_localTimeZoneId schedule_config) ''UTC''),
      sc_notifyOption = Some (get_or (sc_notifyOption schedule_config) ''MailOnFailure'')\<rparr>"

text \<open>
  The body of the \<^verbatim>\<open>for schedule_entry in schedules\<close> loop, lines 524 to 593. With
  entries of this type nothing in the body raises (\<^verbatim>\<open>update_refresh_schedule\<close>
  catches its own exceptions), so the handler of lines 595 to 602 has no branch here.
\<close>

definition restore_schedule_entry ::
  "'w api \<Rightarrow> string \<Rightarrow> (string \<times> string) list option \<Rightarrow> lookup \<Rightarrow>
   schedule_results \<times> 'w st \<Rightarrow> schedule_entry \<Rightarrow> schedule_results \<times> 'w st" where
  "restore_schedule_entry api workspace_id dataset_mapping datasets acc schedule_entry =
     (case acc of (results, s) \<Rightarrow>
       (let dataset_name = se_dataset_name schedule_entry;
            schedule_config = get_or (se_schedule schedule_entry) empty_config;
            dataset_id = find_dataset_id dataset_mapping datasets dataset_name
        in if falsy dataset_id
           then (results\<lparr>rr_skipped := rr_skipped results + 1,
                          rr_details := rr_details results @ [SkippedDetail dataset_name]\<rparr>, s)
           else
             (let frequency = get_or (sc_frequency schedule_config) ''unknown'';
                  times = get_or (sc_times schedule_config) [];
                  days = get_or (sc_days schedule_config) []
              in case update_refresh_schedule api workspace_id (get_or dataset_id [])
                        (api_schedule_config schedule_config) s of
                   (update_success, s') \<Rightarrow>
                     if update_success
                     then (results\<lparr>rr_restored := rr_restored results + 1,
                                    rr_details := rr_details results @
                                      [ConfiguredDetail dataset_name (get_or dataset_id [])
                                         frequency times days]\<rparr>, s')
                     else (results\<lparr>rr_failed := rr_failed results + 1,
                                    rr_details := rr_details results @
                                      [FailedDetail dataset_name (get_or dataset_id [])
                                         frequency times days]\<rparr>, s'))))"

text \<open>
  Lines 503 to 609. The listing is attempted once; when it raises, the mapping (or an
  empty dictionary) stands in for it (lines 519 to 521).
\<close>

definition datasets_table :: "error + dataset list \<Rightarrow> (string \<times> string) list option \<Rightarrow> lookup" where
  "datasets_table listing dataset_mapping =
     (case listing of
        Inr value_list \<Rightarrow> datasets_of_listing value_list
      | Inl e \<Rightarrow> mapping_or_empty dataset_mapping)"

definition restore_refresh_schedules ::
  "'w api \<Rightarrow> string \<Rightarrow> schedule_entry list \<Rightarrow> (string \<times> string) list option \<Rightarrow>
   'w st \<Rightarrow> schedule_results \<times> 'w st" where
  "restore_refresh_schedules api workspace_id schedules dataset_mapping s =
     (let results = \<lparr>rr_status = ''completed'', rr_restored = 0, rr_failed = 0, rr_skipped = 0,
                      rr_details = []\<rparr>
      in case get_datasets api workspace_id s of
           (listing, s1) \<Rightarrow>
             foldl (restore_schedule_entry api workspace_id dataset_mapping
                      (datasets_table listing dataset_mapping))
               (results, s1) schedules)"

section \<open>auth\_and\_api.py: \<^verbatim>\<open>import_pbix\<close>\<close>

text \<open>
  A PBIX file found by \<^verbatim>\<open>Path(dir).glob("*.pbix")\<close>: its directory and its name.
  \<^verbatim>\<open>pbix_file.name\<close> is the name, \<^verbatim>\<open>str(pbix_file)\<close> the directory and the name, and
  \<^verbatim>\<open>pbix_file.stem\<close> follows pathlib: the name up to its last dot, unless that dot is
  the first or the last character (the stem of \<^verbatim>\<open>.pbix\<close> is \<^verbatim>\<open>.pbix\<close>).
\<close>

record pbix_file =
  pf_dir :: string
  pf_name :: string

definition path_str :: "pbix_file \<Rightarrow> string" where
  "path_str f = pf_dir f @ ''/'' @ pf_name f"

text \<open>\<^verbatim>\<open>name.rfind('.')\<close>: the index of the last dot.\<close>

definition rfind_dot :: "string \<Rightarrow> nat option" where
  "rfind_dot name =
     (if CHR ''.'' \<in> set name
      then Some (length name - 1 - length (takeWhile (\<lambda>c. c \<noteq> CHR ''.'') (rev name)))
      else None)"

definition path_stem :: "string \<Rightarrow> string" where
  "path_stem name =
     (case rfind_dot name of
        None \<Rightarrow> name
      | Some i \<Rightarrow> if 0 < i \<and> i < length name - 1 then take i name else name)"

definition stem :: "pbix_file \<Rightarrow> string" where
  "stem f = path_stem (pf_name f)"

text \<open>
  Lines 300 to 313: the listing is asked again and the display name is made unique.
  \<^verbatim>\<open>[d['name'] for d in value]\<close> raises \<^verbatim>\<open>KeyError\<close> at the first entry without the key;
  an entry whose name is \<^verbatim>\<open>null\<close> gives \<^verbatim>\<open>None\<close>. A failing listing or a raising
  comprehension leaves the name as it is: the bare \<^verbatim>\<open>except\<close> swallows the exception.
\<close>

fun index_names :: "dataset list \<Rightarrow> error + string option list" where
  "index_names [] = Inr []"
| "index_names (d # ds) =
     (case index_name d of
        Inl e \<Rightarrow> Inl e
      | Inr n \<Rightarrow> (case index_names ds of Inl e \<Rightarrow> Inl e | Inr ns \<Rightarrow> Inr (n # ns)))"

definition choose_display_name :: "string \<Rightarrow> error + dataset list \<Rightarrow> string" where
  "choose_display_name dataset_display_name listing =
     (case listing of
        Inl e \<Rightarrow> dataset_display_name
      | Inr value_list \<Rightarrow>
          (case index_names value_list of
             Inl e \<Rightarrow> dataset_display_name
           | Inr dataset_names \<Rightarrow> unique_display_name dataset_display_name dataset_names))"

text \<open>
  Lines 259 to 350. The sanitized \<^verbatim>\<open>report_name\<close> is only written to the log; the name
  sent with the request is made from the stem of the file (lines 294 to 316). The path
  string is \<^verbatim>\<open>str(pbix_file)\<close>, so \<^verbatim>\<open>Path(pbix_file_path).stem\<close> is the stem of the file.
  Every exception is caught and gives \<^verbatim>\<open>False\<close>.
\<close>

definition import_pbix ::
  "'w api \<Rightarrow> string \<Rightarrow> pbix_file \<Rightarrow> string option \<Rightarrow> 'w st \<Rightarrow> bool \<times> 'w st" where
  "import_pbix api workspace_id pbix_file report_name s =
     (if \<not> fs_exists api (world s) (path_str pbix_file) then (False, s)
      else
        (let logged_name = sanitize_report_name
               (if falsy report_name then stem pbix_file else get_or report_name [])
         in case get_access_token api s of
              (Inl e, s1) \<Rightarrow> (False, s1)
            | (Inr token, s1) \<Rightarrow>
                if token = [] \<or> length token < 100 then (False, s1)
                else
                  (case fs_read api (world s1) (path_str pbix_file) of
                     Inl e \<Rightarrow> (False, s1)
                   | Inr pbix_data \<Rightarrow>
                       (case get_datasets api workspace_id s1 of
                          (listing, s2) \<Rightarrow>
                            (let dataset_display_name =
                                   choose_display_name (stem pbix_file) listing
                             in case http_post_import api workspace_id dataset_display_name
                                       pbix_data (world s2) of
                                  (r, w') \<Rightarrow>
                                    (case r of Inl e \<Rightarrow> False
                                             | Inr status \<Rightarrow> accepted_status status,
                                     \<lparr>world = w',
                                      calls = calls s2 @
                                        [PostImport workspace_id dataset_display_name]\<rparr>))))))"

section \<open>restore\_service.py: \<^verbatim>\<open>restore_reports_pbix\<close>\<close>

datatype pbix_detail =
    ImportedDetail string string string string nat
  | ImportFailedDetail string string
  | ImportErrorDetail string string

fun pbix_detail_status :: "pbix_detail \<Rightarrow> string" where
  "pbix_detail_status (ImportedDetail file dataset_name original_name new_id sz) = ''imported''"
| "pbix_detail_status (ImportFailedDetail file dataset_name) = ''failed''"
| "pbix_detail_status (ImportErrorDetail file err) = ''error''"

fun pbix_detail_file :: "pbix_detail \<Rightarrow> string" where
  "pbix_detail_file (ImportedDetail file dataset_name original_name new_id sz) = file"
| "pbix_detail_file (ImportFailedDetail file dataset_name) = file"
| "pbix_detail_file (ImportErrorDetail file err) = file"

record pbix_results =
  pr_status :: string
  pr_imported :: nat
  pr_failed :: nat
  pr_duplicate_handled :: nat
  pr_details :: "pbix_detail list"
  pr_pbix_files_found :: nat
  pr_target_workspace_id :: string
  pr_dataset_id_mapping :: "(string \<times> string) list"
  pr_error :: "string option"
  pr_message :: "string option"

text \<open>
  The local variable \<^verbatim>\<open>new_dataset_id\<close> is assigned inside the \<^verbatim>\<open>try\<close> of lines 110 to
  128, after the listing call. When that call raises, the variable keeps what an earlier
  iteration left in it, or is unbound in the first iteration; line 135 then reads it.
\<close>

datatype local_var = Unbound | Bound "string option"

text \<open>
  Lines 115 to 119: the id of the first dataset of the listing with the resolved name.
\<close>

fun find_new_dataset_id :: "dataset list \<Rightarrow> string \<Rightarrow> string option" where
  "find_new_dataset_id [] final_dataset_name = None"
| "find_new_dataset_id (d # ds) final_dataset_name =
     (if get_name d = Some final_dataset_name then ds_id d
      else find_new_dataset_id ds final_dataset_name)"

text \<open>
  Assignment to a dictionary key, as in
  \<^verbatim>\<open>results["dataset_id_mapping"][report_name] = new_dataset_id\<close>.
\<close>

fun dict_set :: "(string \<times> 'v) list \<Rightarrow> string \<Rightarrow> 'v \<Rightarrow> (string \<times> 'v) list" where
  "dict_set [] k v = [(k, v)]"
| "dict_set ((k', v') # kvs) k v = (if k' = k then (k, v) # kvs else (k', v') # dict_set kvs k v)"

record 'w loop_state =
  ls_results :: pbix_results
  ls_existing_datasets :: "string option list"
  ls_new_dataset_id :: local_var
  ls_st :: "'w st"

text \<open>
  The body of \<^verbatim>\<open>for pbix_file in pbix_files\<close>, lines 83 to 157. The file size is kept in
  bytes; the source rounds it to megabytes with two decimals. The handler of lines 150 to
  157 is reached from line 135 (the unbound variable) and from line 136 (\<^verbatim>\<open>stat()\<close>),
  both after \<^verbatim>\<open>imported\<close> was incremented at line 130.
\<close>

definition import_one :: "'w api \<Rightarrow> string \<Rightarrow> 'w loop_state \<Rightarrow> pbix_file \<Rightarrow> 'w loop_state" where
  "import_one api target_workspace_id ls pbix_file =
     (let results = ls_results ls;
          existing_datasets = ls_existing_datasets ls;
          report_name = stem pbix_file;
          final_dataset_name = fst (resolve_name report_name existing_datasets);
          results1 = (if snd (resolve_name report_name existing_datasets)
                      then results\<lparr>pr_duplicate_handled := pr_duplicate_handled results + 1\<rparr>
                      else results)
      in case import_pbix api target_workspace_id pbix_file (Some final_dataset_name) (ls_st ls) of
           (import_result, s1) \<Rightarrow>
             if import_result
             then
               (case get_datasets api target_workspace_id s1 of
                  (listing, s2) \<Rightarrow>
                    (let new_dataset_id =
                           (case listing of
                              Inl e \<Rightarrow> ls_new_dataset_id ls
                            | Inr value_list \<Rightarrow>
                                Bound (find_new_dataset_id value_list final_dataset_name));
                         results2 =
                           (case listing of
                              Inl e \<Rightarrow> results1
                            | Inr value_list \<Rightarrow>
                                if falsy (find_new_dataset_id value_list final_dataset_name)
                                then results1
                                else results1\<lparr>pr_dataset_id_mapping :=
                                       dict_set (pr_dataset_id_mapping results1) report_name
                                         (get_or (find_new_dataset_id value_list final_dataset_name) [])\<rparr>);
                         results3 = results2\<lparr>pr_imported := pr_imported results2 + 1\<rparr>
                     in case new_dataset_id of
                          Unbound \<Rightarrow>
                            \<lparr>ls_results = results3\<lparr>pr_failed := pr_failed results3 + 1,
                                 pr_details := pr_details results3 @
                                   [ImportErrorDetail (pf_name pbix_file)
                                      (str_of_error (UnboundLocalError
                                         ''cannot access local variable 'new_dataset_id' where it is not associated with a value''))]\<rparr>,
                             ls_existing_datasets = existing_datasets,
                             ls_new_dataset_id = new_dataset_id,
                             ls_st = s2\<rparr>
                        | Bound v \<Rightarrow>
                            (case fs_stat_size api (world s2) (path_str pbix_file) of
                               Inl e \<Rightarrow>
                                 \<lparr>ls_results = results3\<lparr>pr_failed := pr_failed results3 + 1,
                                      pr_details := pr_details results3 @
                                        [ImportErrorDetail (pf_name pbix_file) (str_of_error e)]\<rparr>,
                                  ls_existing_datasets = existing_datasets,
                                  ls_new_dataset_id = new_dataset_id,
                                  ls_st = s2\<rparr>
                             | Inr file_size \<Rightarrow>
                                 \<lparr>ls_results = results3\<lparr>pr_details := pr_details results3 @
                                        [ImportedDetail (pf_name pbix_file) final_dataset_name
                                           report_name (if falsy v then ''pending'' else get_or v [])
                                           file_size]\<rparr>,
                                  ls_existing_datasets = existing_datasets @ [Some final_dataset_name],
                                  ls_new_dataset_id = new_dataset_id,
                                  ls_st = s2\<rparr>)))
             else
               \<lparr>ls_results = results1\<lparr>pr_failed := pr_failed results1 + 1,
                    pr_details := pr_details results1 @
                      [ImportFailedDetail (pf_name pbix_file) final_dataset_name]\<rparr>,
                ls_existing_datasets = existing_datasets,
                ls_new_dataset_id = ls_new_dataset_id ls,
                ls_st = s1\<rparr>)"

text \<open>
  Lines 39 to 174. \<^verbatim>\<open>fs_glob_pbix\<close> gives the names the pattern \<^verbatim>\<open>*.pbix\<close> matches in
  the directory; \<^verbatim>\<open>sorted\<close> orders the paths of one directory by these names. The list
  of existing names is \<^verbatim>\<open>[d.get('name', '') for d in value]\<close>. An exception outside the
  item loop (here: the directory cannot be listed) reaches the handler of lines 170 to
  174.
\<close>

definition restore_reports_pbix ::
  "'w api \<Rightarrow> string \<Rightarrow> string \<Rightarrow> 'w st \<Rightarrow> pbix_results \<times> 'w st" where
  "restore_reports_pbix api target_workspace_id pbix_files_path s =
     (let results = \<lparr>pr_status = ''in_progress'', pr_imported = 0, pr_failed = 0,
                      pr_duplicate_handled = 0, pr_details = [], pr_pbix_files_found = 0,
                      pr_target_workspace_id = target_workspace_id, pr_dataset_id_mapping = [],
                      pr_error = None, pr_message = None\<rparr>
      in if \<not> fs_exists api (world s) pbix_files_path
         then (results\<lparr>pr_status := ''failed'',
                        pr_error := Some (''Directory not found: '' @ pbix_files_path)\<rparr>, s)
         else
           (case fs_glob_pbix api (world s) pbix_files_path of
              Inl e \<Rightarrow> (results\<lparr>pr_status := ''failed'', pr_error := Some (str_of_error e)\<rparr>, s)
            | Inr names \<Rightarrow>
                (let pbix_files = map (\<lambda>n. \<lparr>pf_dir = pbix_files_path, pf_name = n\<rparr>)
                                    (sort names);
                     results1 = results\<lparr>pr_pbix_files_found := length pbix_files\<rparr>
                 in if length pbix_files = 0
                    then (results1\<lparr>pr_status := ''completed'',
                                    pr_message := Some ''No PBIX files to restore''\<rparr>, s)
                    else
                      (case get_datasets api target_workspace_id s of
                         (listing, s1) \<Rightarrow>
                           (let existing_datasets =
                                  (case listing of
                                     Inl e \<Rightarrow> []
                                   | Inr value_list \<Rightarrow> map get_name_or_empty value_list);
                                ls = foldl (import_one api target_workspace_id)
                                       \<lparr>ls_results = results1,
                                        ls_existing_datasets = existing_datasets,
                                        ls_new_dataset_id = Unbound,
                                        ls_st = s1\<rparr> pbix_files
                            in ((ls_results ls)\<lparr>pr_status := ''completed'',
                                   pr_message := Some (''Imported '' @ str_nat (pr_imported (ls_results ls))
                                     @ ''/'' @ str_nat (length pbix_files) @ '' PBIX files'')\<rparr>,
                                ls_st ls))))))"

section \<open>restore\_service.py: \<^verbatim>\<open>restore_pbix_files\<close>\<close>

text \<open>
  \<^verbatim>\<open>restore_reports_pbix(self, target_workspace_id, pbix_files_path)\<close> takes two arguments
  besides \<^verbatim>\<open>self\<close>. Python checks the number of positional arguments when the call is
  made and raises \<^verbatim>\<open>TypeError\<close> before the body runs.
\<close>

definition call_restore_reports_pbix ::
  "'w api \<Rightarrow> string list \<Rightarrow> 'w st \<Rightarrow> (error + pbix_results) \<times> 'w st" where
  "call_restore_reports_pbix api args s =
     (case args of
        [target_workspace_id, pbix_files_path] \<Rightarrow>
          (case restore_reports_pbix api target_workspace_id pbix_files_path s of
             (result, s') \<Rightarrow> (Inr result, s'))
      | _ \<Rightarrow>
          (Inl (TypeError (''ReportsRestoreService.restore_reports_pbix() takes 3 positional arguments but ''
                  @ str_nat (length args + 1) @ '' were given'')), s))"

text \<open>
  Lines 644 to 664: \<^verbatim>\<open>os.path.join(backup_folder, "pbix_files")\<close>, then the call with
  three arguments; the handler logs and re-raises.
\<close>

definition path_join :: "string \<Rightarrow> string \<Rightarrow> string" where
  "path_join a b = (if a = [] then b else if last a = CHR ''/'' then a @ b else a @ ''/'' @ b)"

definition restore_pbix_files ::
  "'w api \<Rightarrow> string \<Rightarrow> string \<Rightarrow> 'w st \<Rightarrow> (error + pbix_results) \<times> 'w st" where
  "restore_pbix_files api backup_folder target_workspace_id s =
     (let pbix_path = path_join backup_folder ''pbix_files''
      in case call_restore_reports_pbix api
                [target_workspace_id, pbix_path, target_workspace_id] s of
           (Inl e, s') \<Rightarrow> (Inl e, s')
         | (Inr result, s') \<Rightarrow> (Inr result, s'))"

section \<open>Backup data as loaded from JSON\<close>

text \<open>
  The backup file is read with \<^verbatim>\<open>json.load\<close>; the component lists come in two shapes (a
  list of dictionaries in the plain backup, a dictionary with \<^verbatim>\<open>count\<close> and \<^verbatim>\<open>items\<close> in
  the enhanced one), so the phases that read them are modelled on untyped JSON values with
  the Python operations they use. Numbers are integers here.
\<close>

datatype json =
    JNull
  | JBool bool
  | JInt int
  | JStr string
  | JList "json list"
  | JDict "(string \<times> json) list"

fun type_name :: "json \<Rightarrow> string" where
  "type_name JNull = ''NoneType''"
| "type_name (JBool b) = ''bool''"
| "type_name (JInt n) = ''int''"
| "type_name (JStr t) = ''str''"
| "type_name (JList xs) = ''list''"
| "type_name (JDict kvs) = ''dict''"

text \<open>\<^verbatim>\<open>len(x)\<close>.\<close>

fun py_len :: "json \<Rightarrow> error + nat" where
  "py_len (JStr t) = Inr (length t)"
| "py_len (JList xs) = Inr (length xs)"
| "py_len (JDict kvs) = Inr (length kvs)"
| "py_len x = Inl (TypeError (''object of type '' @ [squote_char] @ type_name x @ [squote_char]
                     @ '' has no len()''))"

text \<open>\<^verbatim>\<open>for item in x\<close>: a dictionary gives its keys, a string its characters.\<close>

fun py_iter :: "json \<Rightarrow> error + json list" where
  "py_iter (JList xs) = Inr xs"
| "py_iter (JDict kvs) = Inr (map (\<lambda>kv. JStr (fst kv)) kvs)"
| "py_iter (JStr t) = Inr (map (\<lambda>c. JStr [c]) t)"
| "py_iter x = Inl (TypeError ([squote_char] @ type_name x @ [squote_char]
                     @ '' object is not iterable''))"

text \<open>\<^verbatim>\<open>x.get(key, default)\<close>: only a dictionary has the method.\<close>

fun py_get :: "json \<Rightarrow> string \<Rightarrow> json \<Rightarrow> error + json" where
  "py_get (JDict kvs) key dflt = Inr (case map_of kvs key of None \<Rightarrow> dflt | Some v \<Rightarrow> v)"
| "py_get x key dflt = Inl (AttributeError ([squote_char] @ type_name x @ [squote_char]
                     @ '' object has no attribute '' @ [squote_char] @ ''get'' @ [squote_char]))"

text \<open>Truth value of a value in \<^verbatim>\<open>if x:\<close>.\<close>

fun truthy :: "json \<Rightarrow> bool" where
  "truthy JNull = False"
| "truthy (JBool b) = b"
| "truthy (JInt n) = (n \<noteq> 0)"
| "truthy (JStr t) = (t \<noteq> [])"
| "truthy (JList xs) = (xs \<noteq> [])"
| "truthy (JDict kvs) = (kvs \<noteq> [])"

text \<open>Sequencing of steps that may raise, a comprehension and a loop that may raise.\<close>

definition and_then :: "error + 'a \<Rightarrow> ('a \<Rightarrow> error + 'b) \<Rightarrow> error + 'b" where
  "and_then m f = (case m of Inl e \<Rightarrow> Inl e | Inr x \<Rightarrow> f x)"

fun map_err :: "('a \<Rightarrow> error + 'b) \<Rightarrow> 'a list \<Rightarrow> error + 'b list" where
  "map_err f [] = Inr []"
| "map_err f (x # xs) = and_then (f x) (\<lambda>y. and_then (map_err f xs) (\<lambda>ys. Inr (y # ys)))"

fun fold_err :: "('b \<Rightarrow> 'a \<Rightarrow> error + 'b) \<Rightarrow> 'b \<Rightarrow> 'a list \<Rightarrow> error + 'b" where
  "fold_err f acc [] = Inr acc"
| "fold_err f acc (x # xs) = and_then (f acc x) (\<lambda>acc'. fold_err f acc' xs)"

section \<open>restore\_service.py: the legacy \<^verbatim>\<open>restore_reports\<close>\<close>

text \<open>
  The two methods of \<^verbatim>\<open>ReportsRestoreService\<close> return different things: the legacy
  \<^verbatim>\<open>restore_reports\<close> an integer, \<^verbatim>\<open>restore_reports_pbix\<close> a results dictionary.
\<close>

datatype reports_result = Count nat | PbixResults pbix_results

text \<open>Lines 187 to 194: the count of the reports; the handler re-raises.\<close>

definition restore_reports :: "string \<Rightarrow> json \<Rightarrow> error + reports_result" where
  "restore_reports workspace_id reports = and_then (py_len reports) (\<lambda>restored_count. Inr (Count restored_count))"

text \<open>
  \<^verbatim>\<open>reports_result.get('dataset_id_mapping', {})\<close>, line 718: an integer has no method
  \<^verbatim>\<open>get\<close>.
\<close>

fun get_dataset_id_mapping :: "reports_result \<Rightarrow> error + (string \<times> string) list" where
  "get_dataset_id_mapping (Count n) =
     Inl (AttributeError ([squote_char] @ ''int'' @ [squote_char] @ '' object has no attribute ''
            @ [squote_char] @ ''get'' @ [squote_char]))"
| "get_dataset_id_mapping (PbixResults r) = Inr (pr_dataset_id_mapping r)"

section \<open>restore\_service.py: the documentation phases\<close>

text \<open>
  \<^verbatim>\<open>restore_datasets\<close>, lines 214 to 272. The body of the item loop changes the results
  before it may raise, so it returns the results together with the exception, if any.
  The handler reads \<^verbatim>\<open>dataset.get('name', 'unknown')\<close> again: when the item is not a
  dictionary the handler raises too, and the exception leaves the phase.
\<close>

record datasets_acc =
  da_restored :: nat
  da_failed :: nat
  da_details :: "json list"

definition document_key :: "datasets_acc \<Rightarrow> json \<Rightarrow> json \<Rightarrow> string \<Rightarrow> datasets_acc \<times> error option" where
  "document_key acc dataset dataset_name key =
     (case py_get dataset key JNull of
        Inl e \<Rightarrow> (acc, Some e)
      | Inr v \<Rightarrow>
          if truthy v
          then (case py_len v of
                  Inl e \<Rightarrow> (acc, Some e)
                | Inr n \<Rightarrow>
                    (acc\<lparr>da_details := da_details acc @
                       [JDict [(''dataset'', dataset_name), (''type'', JStr key),
                               (''count'', JInt (int n)), (''status'', JStr ''documented'')]]\<rparr>,
                     None))
          else (acc, None))"

definition dataset_body :: "datasets_acc \<Rightarrow> json \<Rightarrow> datasets_acc \<times> error option" where
  "dataset_body acc dataset =
     (case py_get dataset ''name'' (JStr ''unknown'') of
        Inl e \<Rightarrow> (acc, Some e)
      | Inr dataset_name \<Rightarrow>
          (case py_get dataset ''id'' JNull of
             Inl e \<Rightarrow> (acc, Some e)
           | Inr dataset_id \<Rightarrow>
               if \<not> truthy dataset_id then (acc, None)
               else
                 (case document_key acc dataset dataset_name ''parameters'' of
                    (acc1, Some e) \<Rightarrow> (acc1, Some e)
                  | (acc1, None) \<Rightarrow>
                      (case document_key acc1 dataset dataset_name ''gateway_connections'' of
                         (acc2, Some e) \<Rightarrow> (acc2, Some e)
                       | (acc2, None) \<Rightarrow> (acc2\<lparr>da_restored := da_restored acc2 + 1\<rparr>, None)))))"

definition dataset_step :: "datasets_acc \<Rightarrow> json \<Rightarrow> error + datasets_acc" where
  "dataset_step acc dataset =
     (case dataset_body acc dataset of
        (acc1, None) \<Rightarrow> Inr acc1
      | (acc1, Some e) \<Rightarrow>
          and_then (py_get dataset ''name'' (JStr ''unknown''))
            (\<lambda>name. Inr (acc1\<lparr>da_failed := da_failed acc1 + 1,
                             da_details := da_details acc1 @
                               [JDict [(''dataset'', name), (''status'', JStr ''failed''),
                                       (''error'', JStr (str_of_error e))]]\<rparr>)))"

definition restore_datasets :: "string \<Rightarrow> json \<Rightarrow> error + json" where
  "restore_datasets workspace_id datasets =
     and_then (py_len datasets) (\<lambda>n.
     and_then (py_iter datasets) (\<lambda>items.
     and_then (fold_err dataset_step \<lparr>da_restored = 0, da_failed = 0, da_details = []\<rparr> items)
       (\<lambda>acc. Inr (JDict [(''status'', JStr ''completed''),
                           (''restored'', JInt (int (da_restored acc))),
                           (''failed'', JInt (int (da_failed acc))),
                           (''details'', JList (da_details acc))]))))"

text \<open>
  \<^verbatim>\<open>restore_dataflows\<close>, lines 295 to 337. The record of an item is built before anything
  is changed, so the body either raises or completes.
\<close>

record dataflows_acc =
  fa_manual :: nat
  fa_details :: "json list"

definition dataflow_body :: "dataflows_acc \<Rightarrow> json \<Rightarrow> error + dataflows_acc" where
  "dataflow_body acc dataflow =
     and_then (py_get dataflow ''name'' (JStr ''unknown'')) (\<lambda>dataflow_name.
     and_then (py_get dataflow ''id'' JNull) (\<lambda>dataflow_id.
     and_then (py_get dataflow ''config'' (JDict [])) (\<lambda>config.
     and_then (py_get config ''source'' (JStr ''unknown'')) (\<lambda>source.
     and_then (py_get config ''entities'' (JList [])) (\<lambda>entities.
     and_then (py_len entities) (\<lambda>n.
     and_then (py_get config ''refresh_frequency'' (JStr ''manual'')) (\<lambda>refresh_frequency.
       Inr (acc\<lparr>fa_details := fa_details acc @
                   [JDict [(''name'', dataflow_name), (''id'', dataflow_id), (''source'', source),
                           (''entities'', JInt (int n)), (''refresh_frequency'', refresh_frequency),
                           (''status'', JStr ''requires_manual_recreation''),
                           (''note'', JStr ''Use backed-up configuration to recreate in target workspace'')]],
                 fa_manual := fa_manual acc + 1\<rparr>))))))))"

definition error_record :: "json \<Rightarrow> error \<Rightarrow> error + json" where
  "error_record item e =
     and_then (py_get item ''name'' (JStr ''unknown''))
       (\<lambda>name. Inr (JDict [(''name'', name), (''status'', JStr ''error''),
                            (''error'', JStr (str_of_error e))]))"

definition dataflow_step :: "dataflows_acc \<Rightarrow> json \<Rightarrow> error + dataflows_acc" where
  "dataflow_step acc dataflow =
     (case dataflow_body acc dataflow of
        Inr acc1 \<Rightarrow> Inr acc1
      | Inl e \<Rightarrow> and_then (error_record dataflow e)
                  (\<lambda>d. Inr (acc\<lparr>fa_details := fa_details acc @ [d]\<rparr>)))"

definition restore_dataflows :: "string \<Rightarrow> json \<Rightarrow> error + json" where
  "restore_dataflows workspace_id dataflows =
     and_then (py_len dataflows) (\<lambda>n.
     and_then (py_iter dataflows) (\<lambda>items.
     and_then (fold_err dataflow_step \<lparr>fa_manual = 0, fa_details = []\<rparr> items)
       (\<lambda>acc. Inr (JDict [(''status'', JStr ''documented''),
                           (''restorable'', JInt 0),
                           (''manual_recreation_required'', JInt (int (fa_manual acc))),
                           (''details'', JList (fa_details acc))]))))"

text \<open>\<^verbatim>\<open>restore_dashboards\<close>, lines 360 to 412.\<close>

record dashboards_acc =
  ba_total_tiles :: nat
  ba_details :: "json list"

definition tile_detail :: "json \<Rightarrow> error + json" where
  "tile_detail tile =
     and_then (py_get tile ''title'' (JStr ''Untitled'')) (\<lambda>title.
     and_then (py_get tile ''type'' (JStr ''unknown'')) (\<lambda>ty.
     and_then (py_get tile ''dataset_name'' JNull) (\<lambda>dataset_reference.
     and_then (py_get tile ''query'' (JStr ''N/A'')) (\<lambda>query.
       Inr (JDict [(''title'', title), (''type'', ty),
                   (''dataset_reference'', dataset_reference), (''query'', query)])))))"

definition dashboard_body :: "dashboards_acc \<Rightarrow> json \<Rightarrow> error + dashboards_acc" where
  "dashboard_body acc dashboard =
     and_then (py_get dashboard ''name'' (JStr ''unknown'')) (\<lambda>dashboard_name.
     and_then (py_get dashboard ''id'' JNull) (\<lambda>dashboard_id.
     and_then (py_get dashboard ''tiles'' (JList [])) (\<lambda>tiles.
     and_then (py_len tiles) (\<lambda>n.
     and_then (py_iter tiles) (\<lambda>tile_list.
     and_then (map_err tile_detail tile_list) (\<lambda>tile_details.
       Inr (acc\<lparr>ba_total_tiles := ba_total_tiles acc + n,
                 ba_details := ba_details acc @
                   [JDict [(''name'', dashboard_name), (''id'', dashboard_id),
                           (''tiles_count'', JInt (int n)), (''tiles'', JList tile_details),
                           (''status'', JStr ''requires_manual_recreation''),
                           (''note'', JStr ''Recreate dashboard and pin tiles from imported reports'')]]\<rparr>)))))))"

definition dashboard_step :: "dashboards_acc \<Rightarrow> json \<Rightarrow> error + dashboards_acc" where
  "dashboard_step acc dashboard =
     (case dashboard_body acc dashboard of
        Inr acc1 \<Rightarrow> Inr acc1
      | Inl e \<Rightarrow> and_then (error_record dashboard e)
                  (\<lambda>d. Inr (acc\<lparr>ba_details := ba_details acc @ [d]\<rparr>)))"

definition restore_dashboards :: "string \<Rightarrow> json \<Rightarrow> error + json" where
  "restore_dashboards workspace_id dashboards =
     and_then (py_len dashboards) (\<lambda>n.
     and_then (py_iter dashboards) (\<lambda>items.
     and_then (fold_err dashboard_step \<lparr>ba_total_tiles = 0, ba_details = []\<rparr> items)
       (\<lambda>acc. Inr (JDict [(''status'', JStr ''documented''),
                           (''total_dashboards'', JInt (int n)),
                           (''total_tiles'', JInt (int (ba_total_tiles acc))),
                           (''details'', JList (ba_details acc))]))))"

text \<open>\<^verbatim>\<open>restore_apps\<close>, lines 435 to 477.\<close>

definition name_of_item :: "json \<Rightarrow> error + json" where
  "name_of_item item = py_get item ''name'' JNull"

definition app_body :: "json list \<Rightarrow> json \<Rightarrow> error + json list" where
  "app_body details app =
     and_then (py_get app ''name'' (JStr ''unknown'')) (\<lambda>app_name.
     and_then (py_get app ''id'' JNull) (\<lambda>app_id.
     and_then (py_get app ''reports'' (JList [])) (\<lambda>reports.
     and_then (py_get app ''dashboards'' (JList [])) (\<lambda>dashboards.
     and_then (py_len reports) (\<lambda>nr.
     and_then (py_len dashboards) (\<lambda>nd.
     and_then (py_iter reports) (\<lambda>report_items.
     and_then (map_err name_of_item report_items) (\<lambda>report_list.
     and_then (py_iter dashboards) (\<lambda>dashboard_items.
     and_then (map_err name_of_item dashboard_items) (\<lambda>dashboard_list.
       Inr (details @
              [JDict [(''name'', app_name), (''id'', app_id),
                      (''reports'', JInt (int nr)), (''dashboards'', JInt (int nd)),
                      (''report_list'', JList report_list),
                      (''dashboard_list'', JList dashboard_list),
                      (''status'', JStr ''requires_manual_recreation''),
                      (''note'', JStr ''Recreate app after importing reports and dashboards'')]])))))))))))"

definition app_step :: "json list \<Rightarrow> json \<Rightarrow> error + json list" where
  "app_step details app =
     (case app_body details app of
        Inr details1 \<Rightarrow> Inr details1
      | Inl e \<Rightarrow> and_then (error_record app e) (\<lambda>d. Inr (details @ [d])))"

definition restore_apps :: "string \<Rightarrow> json \<Rightarrow> error + json" where
  "restore_apps workspace_id apps =
     and_then (py_len apps) (\<lambda>n.
     and_then (py_iter apps) (\<lambda>items.
     and_then (fold_err app_step [] items)
       (\<lambda>details. Inr (JDict [(''status'', JStr ''documented''),
                               (''total_apps'', JInt (int n)),
                               (''details'', JList details)]))))"

section \<open>restore\_service.py: \<^verbatim>\<open>restore_all_components\<close>\<close>

text \<open>
  The orchestrator calls one method of each of its six services (lines 619 to 624 create
  them). The services are a record of those methods, each of which returns a result or
  raises and may change the state.
\<close>

record 'w services =
  reports_service :: "string \<Rightarrow> json \<Rightarrow> 'w st \<Rightarrow> (error + reports_result) \<times> 'w st"
  datasets_service :: "string \<Rightarrow> json \<Rightarrow> 'w st \<Rightarrow> (error + json) \<times> 'w st"
  refresh_schedules_service ::
    "string \<Rightarrow> schedule_entry list \<Rightarrow> (string \<times> string) list option \<Rightarrow> 'w st
       \<Rightarrow> (error + schedule_results) \<times> 'w st"
  dashboards_service :: "string \<Rightarrow> json \<Rightarrow> 'w st \<Rightarrow> (error + json) \<times> 'w st"
  dataflows_service :: "string \<Rightarrow> json \<Rightarrow> 'w st \<Rightarrow> (error + json) \<times> 'w st"
  apps_service :: "string \<Rightarrow> json \<Rightarrow> 'w st \<Rightarrow> (error + json) \<times> 'w st"

text \<open>
  \<^verbatim>\<open>CompletePowerBIRestoreService.__init__\<close>: the services of the source. The
  documentation phases and the legacy reports method send no request. With schedule
  entries of the type above \<^verbatim>\<open>restore_refresh_schedules\<close> always returns.
\<close>

definition complete_restore_service :: "'w api \<Rightarrow> 'w services" where
  "complete_restore_service api =
     \<lparr>reports_service = (\<lambda>workspace_id reports s. (restore_reports workspace_id reports, s)),
      datasets_service = (\<lambda>workspace_id datasets s. (restore_datasets workspace_id datasets, s)),
      refresh_schedules_service = (\<lambda>workspace_id schedules dataset_mapping s.
         case restore_refresh_schedules api workspace_id schedules dataset_mapping s of
           (results, s') \<Rightarrow> (Inr results, s')),
      dashboards_service = (\<lambda>workspace_id dashboards s. (restore_dashboards workspace_id dashboards, s)),
      dataflows_service = (\<lambda>workspace_id dataflows s. (restore_dataflows workspace_id dataflows, s)),
      apps_service = (\<lambda>workspace_id apps s. (restore_apps workspace_id apps, s))\<rparr>"

text \<open>
  The backup dictionary: a key may be missing (\<^verbatim>\<open>backup_data.get(key, [])\<close>). The refresh
  schedules are a list of entries in both backup formats.
\<close>

record backup_data =
  bd_reports :: "json option"
  bd_datasets :: "json option"
  bd_refresh_schedules :: "schedule_entry list option"
  bd_dashboards :: "json option"
  bd_dataflows :: "json option"
  bd_apps :: "json option"

text \<open>
  An entry of \<^verbatim>\<open>restored_items["components"]\<close>: the result of a phase, or
  \<^verbatim>\<open>{"status": "failed", "error": str(e)}\<close>.
\<close>

datatype component =
    ReportsComponent reports_result
  | DocComponent json
  | SchedulesComponent schedule_results
  | FailedComponent string

record restore_report =
  rp_status :: string
  rp_workspace_id :: string
  rp_components :: "(string \<times> component) list"
  rp_summary :: "(string \<times> nat) list"

text \<open>
  Phase 1, lines 710 to 727. The result of the reports service is stored, then the
  mapping is read from it; when either raises, the entry becomes the failed record and
  \<^verbatim>\<open>dataset_id_mapping\<close> stays the empty dictionary of line 710.
\<close>

definition reports_phase ::
  "'w services \<Rightarrow> string \<Rightarrow> backup_data \<Rightarrow> (string \<times> component) list \<Rightarrow> 'w st
     \<Rightarrow> ((string \<times> component) list \<times> (string \<times> string) list) \<times> 'w st" where
  "reports_phase svc workspace_id backup components s =
     (case reports_service svc workspace_id (get_or (bd_reports backup) (JList [])) s of
        (Inl e, s1) \<Rightarrow>
          ((dict_set components ''reports'' (FailedComponent (str_of_error e)), []), s1)
      | (Inr reports_result, s1) \<Rightarrow>
          (let components1 = dict_set components ''reports'' (ReportsComponent reports_result)
           in case get_dataset_id_mapping reports_result of
                Inl e \<Rightarrow>
                  ((dict_set components1 ''reports'' (FailedComponent (str_of_error e)), []), s1)
              | Inr dataset_id_mapping \<Rightarrow> ((components1, dataset_id_mapping), s1)))"

text \<open>Phases 2, 4, 5 and 6: the same \<^verbatim>\<open>try\<close> and \<^verbatim>\<open>except\<close> around one call.\<close>

definition doc_phase ::
  "(string \<Rightarrow> json \<Rightarrow> 'w st \<Rightarrow> (error + json) \<times> 'w st) \<Rightarrow> string \<Rightarrow> string \<Rightarrow> json option
     \<Rightarrow> (string \<times> component) list \<Rightarrow> 'w st \<Rightarrow> (string \<times> component) list \<times> 'w st" where
  "doc_phase service key workspace_id items components s =
     (case service workspace_id (get_or items (JList [])) s of
        (Inl e, s1) \<Rightarrow> (dict_set components key (FailedComponent (str_of_error e)), s1)
      | (Inr result, s1) \<Rightarrow> (dict_set components key (DocComponent result), s1))"

text \<open>Phase 3, lines 745 to 755: the mapping of phase 1 is the third argument.\<close>

definition refresh_schedules_phase ::
  "'w services \<Rightarrow> string \<Rightarrow> backup_data \<Rightarrow> (string \<times> string) list
     \<Rightarrow> (string \<times> component) list \<Rightarrow> 'w st \<Rightarrow> (string \<times> component) list \<times> 'w st" where
  "refresh_schedules_phase svc workspace_id backup dataset_id_mapping components s =
     (case refresh_schedules_service svc workspace_id (get_or (bd_refresh_schedules backup) [])
             (Some dataset_id_mapping) s of
        (Inl e, s1) \<Rightarrow>
          (dict_set components ''refresh_schedules'' (FailedComponent (str_of_error e)), s1)
      | (Inr refresh_result, s1) \<Rightarrow>
          (dict_set components ''refresh_schedules'' (SchedulesComponent refresh_result), s1))"

text \<open>
  Lines 689 to 806. The time stamp of the report is not modelled. The summary is created
  with zeros and never changed.
\<close>

definition restore_all_components ::
  "'w services \<Rightarrow> string \<Rightarrow> backup_data \<Rightarrow> 'w st \<Rightarrow> restore_report \<times> 'w st" where
  "restore_all_components svc workspace_id backup s =
     (case reports_phase svc workspace_id backup [] s of
        ((components1, dataset_id_mapping), s1) \<Rightarrow>
     (case doc_phase (datasets_service svc) ''datasets'' workspace_id (bd_datasets backup)
             components1 s1 of
        (components2, s2) \<Rightarrow>
     (case refresh_schedules_phase svc workspace_id backup dataset_id_mapping components2 s2 of
        (components3, s3) \<Rightarrow>
     (case doc_phase (dashboards_service svc) ''dashboards'' workspace_id (bd_dashboards backup)
             components3 s3 of
        (components4, s4) \<Rightarrow>
     (case doc_phase (dataflows_service svc) ''dataflows'' workspace_id (bd_dataflows backup)
             components4 s4 of
        (components5, s5) \<Rightarrow>
     (case doc_phase (apps_service svc) ''apps'' workspace_id (bd_apps backup) components5 s5 of
        (components6, s6) \<Rightarrow>
          (\<lparr>rp_status = ''completed'', rp_workspace_id = workspace_id,
            rp_components = components6,
            rp_summary = [(''total_items'', 0), (''successful_items'', 0), (''failed_items'', 0)]\<rparr>,
           s6)))))))"

section \<open>Test doubles for the collaborators\<close>

text \<open>
  A remote that answers every request the same way and never changes: the token, the
  dataset listing and the answer to a schedule update are fixed. It is used to run the
  phases on concrete inputs.
\<close>

definition fixed_api :: "error + string \<Rightarrow> error + dataset list \<Rightarrow> error + nat \<Rightarrow> unit api" where
  "fixed_api token listing patch_answer =
     \<lparr>auth_token = (\<lambda>w. (token, w)),
      http_get_datasets = (\<lambda>workspace_id w. (listing, w)),
      http_patch_schedule = (\<lambda>workspace_id dataset_id p w. (patch_answer, w)),
      http_post_import = (\<lambda>workspace_id display_name data w. (Inr 202, w)),
      fs_exists = (\<lambda>w path. True),
      fs_glob_pbix = (\<lambda>w path. Inr []),
      fs_read = (\<lambda>w path. Inr []),
      fs_stat_size = (\<lambda>w path. Inr 0)\<rparr>"

definition start :: "unit st" where
  "start = \<lparr>world = (), calls = []\<rparr>"

text \<open>
  A simulated workspace for the Reports phase: the world is the list of datasets of the
  workspace. The listing returns it, an import is accepted and adds a dataset of the
  requested display name, the token is long enough to pass the check of \<^verbatim>\<open>import_pbix\<close>.
  The directory holds the files of the given names; \<open>stat\<close> says what \<^verbatim>\<open>stat()\<close> answers
  for each path.
\<close>

definition sim_api :: "string list \<Rightarrow> (string \<Rightarrow> error + nat) \<Rightarrow> (dataset list) api" where
  "sim_api names stat =
     \<lparr>auth_token = (\<lambda>w. (Inr (replicate 100 (CHR ''t'')), w)),
      http_get_datasets = (\<lambda>workspace_id w. (Inr w, w)),
      http_patch_schedule = (\<lambda>workspace_id dataset_id p w. (Inr 200, w)),
      http_post_import = (\<lambda>workspace_id display_name data w.
         (Inr 202, w @ [\<lparr>ds_name = Name display_name, ds_id = Some (''id-'' @ display_name)\<rparr>])),
      fs_exists = (\<lambda>w path. True),
      fs_glob_pbix = (\<lambda>w path. Inr names),
      fs_read = (\<lambda>w path. Inr ''PBIX''),
      fs_stat_size = (\<lambda>w path. stat path)\<rparr>"

definition workspace_with :: "string list \<Rightarrow> (dataset list) st" where
  "workspace_with names =
     \<lparr>world = map (\<lambda>n. \<lparr>ds_name = Name n, ds_id = Some (''id-'' @ n)\<rparr>) names, calls = []\<rparr>"

text \<open>
  A remote whose listing answers with an empty list a given number of times and raises
  afterwards; the world counts the listing requests. Imports are accepted.
\<close>

definition flaky_api :: "string list \<Rightarrow> nat \<Rightarrow> nat api" where
  "flaky_api names limit =
     \<lparr>auth_token = (\<lambda>w. (Inr (replicate 100 (CHR ''t'')), w)),
      http_get_datasets = (\<lambda>workspace_id w.
         (if w < limit then Inr [] else Inl (RemoteError ''503''), w + 1)),
      http_patch_schedule = (\<lambda>workspace_id dataset_id p w. (Inr 200, w)),
      http_post_import = (\<lambda>workspace_id display_name data w. (Inr 202, w)),
      fs_exists = (\<lambda>w path. True),
      fs_glob_pbix = (\<lambda>w path. Inr names),
      fs_read = (\<lambda>w path. Inr ''PBIX''),
      fs_stat_size = (\<lambda>w path. Inr 2048)\<rparr>"

text \<open>
  The state of the item loop at its first iteration, for a directory of one file and a
  workspace whose listing gave no names.
\<close>

definition first_iteration :: "'w st \<Rightarrow> 'w loop_state" where
  "first_iteration s =
     \<lparr>ls_results = \<lparr>pr_status = ''in_progress'', pr_imported = 0, pr_failed = 0,
                    pr_duplicate_handled = 0, pr_details = [], pr_pbix_files_found = 1,
                    pr_target_workspace_id = ''ws'', pr_dataset_id_mapping = [],
                    pr_error = None, pr_message = None\<rparr>,
      ls_existing_datasets = [], ls_new_dataset_id = Unbound, ls_st = s\<rparr>"

definition stat_b_gone :: "string \<Rightarrow> error + nat" where
  "stat_b_gone path = (if path = ''reports/b.pbix'' then Inl (OSError ''gone'') else Inr 2048)"

definition stat_ok :: "string \<Rightarrow> error + nat" where
  "stat_ok path = Inr 2048"

text \<open>Schedule entries and a listing for the concrete runs.\<close>

definition schedule_of :: "bool \<Rightarrow> string list \<Rightarrow> string list \<Rightarrow> schedule_config" where
  "schedule_of enabled days tms =
     \<lparr>sc_frequency = None, sc_times = Some tms, sc_days = Some days, sc_enabled = Some enabled,
      sc_localTimeZoneId = None, sc_notifyOption = None\<rparr>"

definition entry_of :: "string \<Rightarrow> schedule_config \<Rightarrow> schedule_entry" where
  "entry_of name c = \<lparr>se_dataset_name = Some name, se_schedule = Some c\<rparr>"

definition listing_X :: "dataset list" where
  "listing_X = [\<lparr>ds_name = Name ''X'', ds_id = Some ''id-x''\<rparr>]"

definition three_entries :: "schedule_entry list" where
  "three_entries =
     [entry_of ''X'' (schedule_of True [''Monday''] [''01:00'']),
      entry_of ''Y'' (schedule_of False [] []),
      entry_of ''Z'' (schedule_of True [''Monday''] [''01:00''])]"

text \<open>
  A backup in the enhanced format: reports and datasets are dictionaries with \<^verbatim>\<open>count\<close>
  and \<^verbatim>\<open>items\<close>, the dashboards are \<^verbatim>\<open>null\<close>, a dataflow has a number for its
  configuration, and the apps are missing.
\<close>

definition enhanced_backup :: backup_data where
  "enhanced_backup =
     \<lparr>bd_reports = Some (JDict [(''count'', JInt 1), (''items'', JList [JDict [(''name'', JStr ''X'')]])]),
      bd_datasets = Some (JDict [(''count'', JInt 1), (''items'', JList [JDict [(''name'', JStr ''X'')]])]),
      bd_refresh_schedules = Some [entry_of ''X'' (schedule_of True [''Monday''] [''01:00''])],
      bd_dashboards = Some JNull,
      bd_dataflows = Some (JList [JDict [(''name'', JStr ''flow''), (''config'', JInt 3)]]),
      bd_apps = None\<rparr>"

section \<open>The decision rule in the words of the specification\<close>

text \<open>
  Section 4.3 of the specification, for comparison with the code: an entry whose dataset
  does not resolve is skipped; a disabled schedule, and an enabled one that lacks days,
  times or both, is a success without a remote call; otherwise the payload is built and
  the remote update is called, and its acceptance decides between restored and failed.
  The code records both kinds of success with the status \<^verbatim>\<open>configured\<close>.
\<close>

datatype spec_outcome = Spec_skipped | Spec_success_no_call | Spec_restored | Spec_failed

definition spec_restore_schedule ::
  "string option \<Rightarrow> schedule_config \<Rightarrow> (string \<Rightarrow> payload \<Rightarrow> bool) \<Rightarrow> spec_outcome" where
  "spec_restore_schedule target_id c remote_update =
     (case target_id of
        None \<Rightarrow> Spec_skipped
      | Some i \<Rightarrow>
          if \<not> get_or (sc_enabled c) False then Spec_success_no_call
          else if get_or (sc_days c) [] = [] \<and> get_or (sc_times c) [] = [] then Spec_success_no_call
          else if (get_or (sc_days c) [] = []) \<noteq> (get_or (sc_times c) [] = []) then Spec_success_no_call
          else if remote_update i (build_payload c) then Spec_restored
          else Spec_failed)"

fun recorded_status :: "spec_outcome \<Rightarrow> string" where
  "recorded_status Spec_skipped = ''skipped''"
| "recorded_status Spec_success_no_call = ''configured''"
| "recorded_status Spec_restored = ''configured''"
| "recorded_status Spec_failed = ''failed''"

definition remote_accepts ::
  "error + string \<Rightarrow> (string \<Rightarrow> payload \<Rightarrow> error + nat) \<Rightarrow> string \<Rightarrow> payload \<Rightarrow> bool" where
  "remote_accepts token answer i p =
     (case token of
        Inl e \<Rightarrow> False
      | Inr t \<Rightarrow> (case answer i p of Inl e \<Rightarrow> False | Inr status \<Rightarrow> accepted_status status))"

definition resolved_id :: "(string \<times> string) list option \<Rightarrow> lookup \<Rightarrow> schedule_entry \<Rightarrow> string option" where
  "resolved_id m t e =
     (if falsy (find_dataset_id m t (se_dataset_name e)) then None
      else find_dataset_id m t (se_dataset_name e))"

text \<open>Predicates on details and requests used to state the properties.\<close>

definition no_request_needed :: "schedule_config \<Rightarrow> bool" where
  "no_request_needed c =
     (\<not> get_or (sc_enabled c) False \<or> get_or (sc_days c) [] = [] \<or> get_or (sc_times c) [] = [])"

definition entry_requests ::
  "error + string \<Rightarrow> string \<Rightarrow> (string \<times> string) list option \<Rightarrow> lookup \<Rightarrow> schedule_entry \<Rightarrow> remote_call list" where
  "entry_requests token ws m t e =
     (case resolved_id m t e of
        None \<Rightarrow> []
      | Some i \<Rightarrow>
          if no_request_needed (get_or (se_schedule e) empty_config) \<or> isl token then []
          else [PatchRefreshSchedule ws i (build_payload (get_or (se_schedule e) empty_config))])"

definition entry_detail_ok ::
  "(string \<times> string) list option \<Rightarrow> lookup \<Rightarrow> schedule_entry \<Rightarrow> schedule_detail \<Rightarrow> bool" where
  "entry_detail_ok m t e d =
     (let n = se_dataset_name e;
          i = find_dataset_id m t n;
          c = get_or (se_schedule e) empty_config
      in if falsy i then d = SkippedDetail n
         else d = ConfiguredDetail n (get_or i []) (get_or (sc_frequency c) ''unknown'')
                    (get_or (sc_times c) []) (get_or (sc_days c) [])
            \<or> (\<not> no_request_needed c \<and>
                d = FailedDetail n (get_or i []) (get_or (sc_frequency c) ''unknown'')
                      (get_or (sc_times c) []) (get_or (sc_days c) [])))"

definition count_status :: "string \<Rightarrow> schedule_detail list \<Rightarrow> nat" where
  "count_status st ds = length (filter (\<lambda>d. detail_status d = st) ds)"

definition is_patch :: "remote_call \<Rightarrow> bool" where
  "is_patch c = (case c of PatchRefreshSchedule w d p \<Rightarrow> True | _ \<Rightarrow> False)"

text \<open>The number of records of a given status among the details of the Reports phase.\<close>

definition count_pbix_status :: "string \<Rightarrow> pbix_detail list \<Rightarrow> nat" where
  "count_pbix_status st ds = length (filter (\<lambda>d. pbix_detail_status d = st) ds)"

section \<open>Properties of the name sanitization\<close>








section \<open>Properties of the refresh schedule phase\<close>

lemmas run_defs = get_name_def restore_refresh_schedules_def restore_schedule_entry_def Let_def fixed_api_def
      start_def get_datasets_def get_access_token_def datasets_table_def datasets_of_listing_def
      find_dataset_id_def in_mapping_def falsy_def get_or_def update_refresh_schedule_def
      api_schedule_config_def schedule_of_def entry_of_def listing_X_def mapping_or_empty_def
      build_payload_def accepted_status_def empty_config_def

lemma update_noop:
  "\<not> get_or (sc_enabled c) False \<or> get_or (sc_days c) [] = [] \<or> get_or (sc_times c) [] = []
   \<Longrightarrow> update_refresh_schedule api ws i c s = (True, s)"
  by (auto simp: update_refresh_schedule_def Let_def)

lemma api_cfg_get [simp]:
  "get_or (sc_enabled (api_schedule_config c)) False = get_or (sc_enabled c) False"
  "get_or (sc_days (api_schedule_config c)) [] = get_or (sc_days c) []"
  "get_or (sc_times (api_schedule_config c)) [] = get_or (sc_times c) []"
  by (simp_all add: api_schedule_config_def get_or_def)

lemma entry_skipped:
  "falsy (find_dataset_id m t (se_dataset_name e)) \<Longrightarrow>
   restore_schedule_entry api ws m t (r, s) e =
     (r\<lparr>rr_skipped := rr_skipped r + 1, rr_details := rr_details r @ [SkippedDetail (se_dataset_name e)]\<rparr>, s)"
  by (simp add: restore_schedule_entry_def Let_def)

lemma entry_resolved:
  assumes "\<not> falsy (find_dataset_id m t (se_dataset_name e))"
  shows "restore_schedule_entry api ws m t (r, s) e =
     (let i = get_or (find_dataset_id m t (se_dataset_name e)) [];
          c = get_or (se_schedule e) empty_config;
          u = update_refresh_schedule api ws i (api_schedule_config c) s
      in (if fst u
          then r\<lparr>rr_restored := rr_restored r + 1,
                 rr_details := rr_details r @ [ConfiguredDetail (se_dataset_name e) i
                    (get_or (sc_frequency c) ''unknown'') (get_or (sc_times c) []) (get_or (sc_days c) [])]\<rparr>
          else r\<lparr>rr_failed := rr_failed r + 1,
                 rr_details := rr_details r @ [FailedDetail (se_dataset_name e) i
                    (get_or (sc_frequency c) ''unknown'') (get_or (sc_times c) []) (get_or (sc_days c) [])]\<rparr>,
          snd u))"
  using assms by (simp add: restore_schedule_entry_def Let_def split: prod.splits)

lemma count_status_append [simp]:
  "count_status st (xs @ ys) = count_status st xs + count_status st ys"
  by (simp add: count_status_def)

lemma count_status_simps [simp]:
  "count_status st [] = 0"
  "count_status st (d # ds) = (if detail_status d = st then 1 else 0) + count_status st ds"
  by (simp_all add: count_status_def)

lemma entry_step:
  "\<exists>d r' s'. restore_schedule_entry api ws m t (r, s) e = (r', s') \<and>
     rr_details r' = rr_details r @ [d] \<and> entry_detail_ok m t e d \<and>
     rr_skipped r' = rr_skipped r + count_status ''skipped'' [d] \<and>
     rr_restored r' = rr_restored r + count_status ''configured'' [d] \<and>
     rr_failed r' = rr_failed r + count_status ''failed'' [d] \<and>
     rr_status r' = rr_status r"
proof (cases "falsy (find_dataset_id m t (se_dataset_name e))")
  case True
  then show ?thesis
    by (simp add: entry_skipped entry_detail_ok_def)
next
  case False
  let ?c = "get_or (se_schedule e) empty_config"
  let ?u = "update_refresh_schedule api ws (get_or (find_dataset_id m t (se_dataset_name e)) [])
              (api_schedule_config ?c) s"
  show ?thesis
  proof (cases "fst ?u")
    case True
    with False show ?thesis
      by (simp add: entry_resolved Let_def entry_detail_ok_def)
  next
    case f: False
    have "no_request_needed ?c \<Longrightarrow> fst ?u"
      by (subst update_noop) (simp_all add: no_request_needed_def)
    with f have "\<not> no_request_needed ?c" by blast
    with False f show ?thesis
      by (simp add: entry_resolved Let_def entry_detail_ok_def)
  qed
qed

lemma fold_entries:
  "\<exists>ds. rr_details (fst (foldl (restore_schedule_entry api ws m t) (r, s) es)) = rr_details r @ ds \<and>
     list_all2 (entry_detail_ok m t) es ds \<and>
     rr_skipped (fst (foldl (restore_schedule_entry api ws m t) (r, s) es)) = rr_skipped r + count_status ''skipped'' ds \<and>
     rr_restored (fst (foldl (restore_schedule_entry api ws m t) (r, s) es)) = rr_restored r + count_status ''configured'' ds \<and>
     rr_failed (fst (foldl (restore_schedule_entry api ws m t) (r, s) es)) = rr_failed r + count_status ''failed'' ds \<and>
     rr_status (fst (foldl (restore_schedule_entry api ws m t) (r, s) es)) = rr_status r"
proof (induction es arbitrary: r s)
  case Nil
  show ?case by simp
next
  case (Cons e es)
  obtain d r' s' where st: "restore_schedule_entry api ws m t (r, s) e = (r', s')"
    "rr_details r' = rr_details r @ [d]" "entry_detail_ok m t e d"
    "rr_skipped r' = rr_skipped r + count_status ''skipped'' [d]"
    "rr_restored r' = rr_restored r + count_status ''configured'' [d]"
    "rr_failed r' = rr_failed r + count_status ''failed'' [d]"
    "rr_status r' = rr_status r"
    using entry_step [of api ws m t r s e] by blast
  from Cons.IH [of r' s'] obtain ds where ih:
    "rr_details (fst (foldl (restore_schedule_entry api ws m t) (r', s') es)) = rr_details r' @ ds"
    "list_all2 (entry_detail_ok m t) es ds"
    "rr_skipped (fst (foldl (restore_schedule_entry api ws m t) (r', s') es)) = rr_skipped r' + count_status ''skipped'' ds"
    "rr_restored (fst (foldl (restore_schedule_entry api ws m t) (r', s') es)) = rr_restored r' + count_status ''configured'' ds"
    "rr_failed (fst (foldl (restore_schedule_entry api ws m t) (r', s') es)) = rr_failed r' + count_status ''failed'' ds"
    "rr_status (fst (foldl (restore_schedule_entry api ws m t) (r', s') es)) = rr_status r'"
    by blast
  show ?case
    apply (rule exI [of _ "d # ds"])
    using st ih by simp
qed

lemma phase_unfold:
  "restore_refresh_schedules api ws es m s =
     foldl (restore_schedule_entry api ws m (datasets_table (fst (get_datasets api ws s)) m))
       (\<lparr>rr_status = ''completed'', rr_restored = 0, rr_failed = 0, rr_skipped = 0, rr_details = []\<rparr>,
        snd (get_datasets api ws s)) es"
  by (simp add: restore_refresh_schedules_def Let_def split: prod.splits)

lemma phase_details:
  "\<exists>ds. rr_details (fst (restore_refresh_schedules api ws es m s)) = ds \<and>
     list_all2 (entry_detail_ok m (datasets_table (fst (get_datasets api ws s)) m)) es ds \<and>
     rr_skipped (fst (restore_refresh_schedules api ws es m s)) = count_status ''skipped'' ds \<and>
     rr_restored (fst (restore_refresh_schedules api ws es m s)) = count_status ''configured'' ds \<and>
     rr_failed (fst (restore_refresh_schedules api ws es m s)) = count_status ''failed'' ds \<and>
     rr_status (fst (restore_refresh_schedules api ws es m s)) = ''completed''"
  using fold_entries [of api ws m "datasets_table (fst (get_datasets api ws s)) m"
      "\<lparr>rr_status = ''completed'', rr_restored = 0, rr_failed = 0, rr_skipped = 0, rr_details = []\<rparr>"
      "snd (get_datasets api ws s)" es]
  by (simp add: phase_unfold)

lemma find_prefers_mapping:
  "map_of m n = Some i \<Longrightarrow> find_dataset_id (Some m) t (Some n) = Some i"
  by (auto simp: find_dataset_id_def in_mapping_def)




lemma entry_detail_ok_no_request:
  "entry_detail_ok m t e d \<Longrightarrow> \<not> falsy (find_dataset_id m t (se_dataset_name e)) \<Longrightarrow>
   no_request_needed (get_or (se_schedule e) empty_config) \<Longrightarrow>
   d = ConfiguredDetail (se_dataset_name e) (get_or (find_dataset_id m t (se_dataset_name e)) [])
         (get_or (sc_frequency (get_or (se_schedule e) empty_config)) ''unknown'')
         (get_or (sc_times (get_or (se_schedule e) empty_config)) [])
         (get_or (sc_days (get_or (se_schedule e) empty_config)) [])"
  by (auto simp: entry_detail_ok_def Let_def)




lemma get_datasets_no_patch:
  "filter is_patch (calls (snd (get_datasets api ws s))) = filter is_patch (calls s)"
  by (simp add: get_datasets_def get_access_token_def is_patch_def split: prod.splits sum.splits)

text \<open>
  Claim C2, as the code has it. For a single entry whose dataset resolves, whose schedule
  is enabled and has exactly one of days and times empty, the phase reports restored = 1
  (the early \<^verbatim>\<open>return True\<close> of \<^verbatim>\<open>update_refresh_schedule\<close> is counted as a restored
  schedule), skipped = 0, failed = 0 and status \<^verbatim>\<open>completed\<close>; the state after the phase
  is the state after the listing call, so no update request is sent. For every such
  schedule \<^verbatim>\<open>update_refresh_schedule\<close> returns \<^verbatim>\<open>True\<close> and leaves the state unchanged.
\<close>

theorem inconsistent_schedule_counted_restored:
  assumes en: "get_or (sc_enabled cfg) False"
    and one: "(get_or (sc_days cfg) [] = []) \<noteq> (get_or (sc_times cfg) [] = [])"
    and res: "\<not> falsy (find_dataset_id mapping
                (datasets_table (fst (get_datasets api ws s)) mapping) name)"
  shows "rr_restored (fst (restore_refresh_schedules api ws
            [\<lparr>se_dataset_name = name, se_schedule = Some cfg\<rparr>] mapping s)) = 1 \<and>
         rr_skipped (fst (restore_refresh_schedules api ws
            [\<lparr>se_dataset_name = name, se_schedule = Some cfg\<rparr>] mapping s)) = 0 \<and>
         rr_failed (fst (restore_refresh_schedules api ws
            [\<lparr>se_dataset_name = name, se_schedule = Some cfg\<rparr>] mapping s)) = 0 \<and>
         rr_status (fst (restore_refresh_schedules api ws
            [\<lparr>se_dataset_name = name, se_schedule = Some cfg\<rparr>] mapping s)) = ''completed'' \<and>
         snd (restore_refresh_schedules api ws
            [\<lparr>se_dataset_name = name, se_schedule = Some cfg\<rparr>] mapping s)
           = snd (get_datasets api ws s) \<and>
         filter is_patch (calls (snd (restore_refresh_schedules api ws
            [\<lparr>se_dataset_name = name, se_schedule = Some cfg\<rparr>] mapping s)))
           = filter is_patch (calls s) \<and>
         (\<forall>i s'. update_refresh_schedule api ws i cfg s' = (True, s'))"
proof -
  have nr: "get_or (sc_days cfg) [] = [] \<or> get_or (sc_times cfg) [] = []"
    using one by blast
  have upd: "update_refresh_schedule api ws i c s' = (True, s')"
    if "get_or (sc_days c) [] = get_or (sc_days cfg) []" "get_or (sc_times c) [] = get_or (sc_times cfg) []"
    for i c s'
    using nr that by (intro update_noop) auto
  let ?e = "\<lparr>se_dataset_name = name, se_schedule = Some cfg\<rparr>"
  have step: "restore_schedule_entry api ws mapping
      (datasets_table (fst (get_datasets api ws s)) mapping) (r, s') ?e =
     (r\<lparr>rr_restored := rr_restored r + 1,
        rr_details := rr_details r @ [ConfiguredDetail name
          (get_or (find_dataset_id mapping (datasets_table (fst (get_datasets api ws s)) mapping) name) [])
          (get_or (sc_frequency cfg) ''unknown'') (get_or (sc_times cfg) []) (get_or (sc_days cfg) [])]\<rparr>, s')"
    for r s'
    using res by (simp add: entry_resolved Let_def upd get_or_def [of "Some cfg"])
  show ?thesis
    using upd by (simp add: phase_unfold step get_datasets_no_patch)
qed

text \<open>Claim C2 on the input of the specification's scenario.\<close>

theorem inconsistent_schedule_counted_restored_witness:
  "get_or (sc_enabled (schedule_of True [] [''01:00''])) False \<and>
   (get_or (sc_days (schedule_of True [] [''01:00''])) [] = [])
     \<noteq> (get_or (sc_times (schedule_of True [] [''01:00''])) [] = []) \<and>
   \<not> falsy (find_dataset_id None
        (datasets_table (fst (get_datasets (fixed_api (Inr ''token'') (Inr listing_X) (Inr 200)) ''ws'' start)) None)
        (Some ''X'')) \<and>
   rr_restored (fst (restore_refresh_schedules (fixed_api (Inr ''token'') (Inr listing_X) (Inr 200)) ''ws''
      [\<lparr>se_dataset_name = Some ''X'', se_schedule = Some (schedule_of True [] [''01:00''])\<rparr>] None start)) = 1 \<and>
   calls (snd (restore_refresh_schedules (fixed_api (Inr ''token'') (Inr listing_X) (Inr 200)) ''ws''
      [\<lparr>se_dataset_name = Some ''X'', se_schedule = Some (schedule_of True [] [''01:00''])\<rparr>] None start))
     = [GetDatasets ''ws'']"
proof -
  let ?api = "fixed_api (Inr ''token'') (Inr listing_X) (Inr 200)"
  let ?cfg = "schedule_of True [] [''01:00'']"
  have en: "get_or (sc_enabled ?cfg) False"
    by (simp add: schedule_of_def get_or_def)
  have one: "(get_or (sc_days ?cfg) [] = []) \<noteq> (get_or (sc_times ?cfg) [] = [])"
    by (simp add: schedule_of_def get_or_def)
  have res: "\<not> falsy (find_dataset_id None
        (datasets_table (fst (get_datasets ?api ''ws'' start)) None) (Some ''X''))"
    by (simp add: run_defs)
  have g: "snd (get_datasets ?api ''ws'' start) = \<lparr>world = (), calls = [GetDatasets ''ws'']\<rparr>"
    by (simp add: run_defs)
  show ?thesis
    using inconsistent_schedule_counted_restored [OF en one res] en one res g by simp
qed

text \<open>
  Claim C2 as stated fails on the scenario's input: the phase does not report
  restored = 0.
\<close>

theorem inconsistent_schedule_counterexample:
  "rr_restored (fst (restore_refresh_schedules
      (fixed_api (Inr ''token'') (Inr [\<lparr>ds_name = Name ''X'', ds_id = Some ''id-x''\<rparr>]) (Inr 200))
      ''ws''
      [\<lparr>se_dataset_name = Some ''X'',
        se_schedule = Some \<lparr>sc_frequency = None, sc_times = Some [''01:00''], sc_days = Some [],
          sc_enabled = Some True, sc_localTimeZoneId = None, sc_notifyOption = None\<rparr>\<rparr>]
      None start)) \<noteq> 0"
  by (simp add: restore_refresh_schedules_def restore_schedule_entry_def Let_def fixed_api_def
      start_def get_datasets_def get_access_token_def datasets_table_def datasets_of_listing_def
      find_dataset_id_def in_mapping_def falsy_def get_or_def update_refresh_schedule_def
      api_schedule_config_def get_name_def)

lemma build_payload_api [simp]: "build_payload (api_schedule_config c) = build_payload c"
  by (simp add: build_payload_def api_schedule_config_def get_or_def)

lemma update_deterministic:
  assumes tok: "\<forall>w. fst (auth_token api w) = token"
    and pa: "\<forall>w i p. fst (http_patch_schedule api ws i p w) = answer i p"
  shows "fst (update_refresh_schedule api ws i c s) =
           (no_request_needed c \<or> remote_accepts token answer i (build_payload c))"
proof (cases "no_request_needed c")
  case True
  then show ?thesis by (simp add: update_noop no_request_needed_def)
next
  case False
  have t: "fst (auth_token api (world s)) = token" using tok by simp
  show ?thesis
  proof (cases token)
    case (Inl e)
    with False t show ?thesis
      by (auto simp: update_refresh_schedule_def Let_def no_request_needed_def
          get_access_token_def remote_accepts_def split: prod.splits)
  next
    case (Inr tk)
    obtain w1 where a: "auth_token api (world s) = (Inr tk, w1)"
      using t Inr by (cases "auth_token api (world s)") simp
    have "fst (http_patch_schedule api ws i (build_payload c) w1) = answer i (build_payload c)"
      using pa by simp
    with False a Inr show ?thesis
      by (auto simp: update_refresh_schedule_def Let_def no_request_needed_def
          get_access_token_def remote_accepts_def split: prod.splits sum.splits)
  qed
qed

lemma entry_deterministic:
  assumes tok: "\<forall>w. fst (auth_token api w) = token"
    and pa: "\<forall>w i p. fst (http_patch_schedule api ws i p w) = answer i p"
  shows "\<exists>d. rr_details (fst (restore_schedule_entry api ws m t (r, s) e)) = rr_details r @ [d] \<and>
          detail_status d = recorded_status (spec_restore_schedule (resolved_id m t e)
              (get_or (se_schedule e) empty_config) (remote_accepts token answer))"
proof (cases "falsy (find_dataset_id m t (se_dataset_name e))")
  case True
  then show ?thesis
    by (simp add: entry_skipped resolved_id_def spec_restore_schedule_def)
next
  case False
  then obtain i where i: "find_dataset_id m t (se_dataset_name e) = Some i"
    by (cases "find_dataset_id m t (se_dataset_name e)") (auto simp: falsy_def)
  let ?c = "get_or (se_schedule e) empty_config"
  have u: "fst (update_refresh_schedule api ws i (api_schedule_config ?c) s) =
      (no_request_needed ?c \<or> remote_accepts token answer i (build_payload ?c))"
    using update_deterministic [OF tok pa, of i "api_schedule_config ?c" s]
    by (simp add: no_request_needed_def)
  show ?thesis
    using False i u
    by (auto simp: entry_resolved Let_def resolved_id_def spec_restore_schedule_def
        no_request_needed_def get_or_def [of "Some i"])
qed


lemma entry_fst_indep:
  assumes tok: "\<forall>w. fst (auth_token api w) = token"
    and pa: "\<forall>w i p. fst (http_patch_schedule api ws i p w) = answer i p"
  shows "fst (restore_schedule_entry api ws m t (r, s) e) = fst (restore_schedule_entry api ws m t (r, s') e)"
proof (cases "falsy (find_dataset_id m t (se_dataset_name e))")
  case True
  then show ?thesis by (simp add: entry_skipped)
next
  case False
  show ?thesis
    by (simp add: entry_resolved [OF False] Let_def update_deterministic [OF tok pa])
qed

lemma fold_fst_indep:
  assumes tok: "\<forall>w. fst (auth_token api w) = token"
    and pa: "\<forall>w i p. fst (http_patch_schedule api ws i p w) = answer i p"
  shows "fst (foldl (restore_schedule_entry api ws m t) (r, s) es) =
         fst (foldl (restore_schedule_entry api ws m t) (r, s') es)"
proof (induction es arbitrary: r s s')
  case Nil
  show ?case by simp
next
  case (Cons e es)
  obtain r1 s1 where a: "restore_schedule_entry api ws m t (r, s) e = (r1, s1)"
    by (cases "restore_schedule_entry api ws m t (r, s) e")
  obtain r2 s2 where b: "restore_schedule_entry api ws m t (r, s') e = (r2, s2)"
    by (cases "restore_schedule_entry api ws m t (r, s') e")
  have "r1 = r2"
    using entry_fst_indep [OF tok pa, of m t r s e s'] a b by simp
  with a b Cons.IH [of r1 s1 s2] show ?case by simp
qed

lemma fold_statuses:
  assumes tok: "\<forall>w. fst (auth_token api w) = token"
    and pa: "\<forall>w i p. fst (http_patch_schedule api ws i p w) = answer i p"
  shows "map detail_status (rr_details (fst (foldl (restore_schedule_entry api ws m t) (r, s) es))) =
         map detail_status (rr_details r) @
         map (\<lambda>e. recorded_status (spec_restore_schedule (resolved_id m t e)
                (get_or (se_schedule e) empty_config) (remote_accepts token answer))) es"
proof (induction es arbitrary: r s)
  case Nil
  show ?case by simp
next
  case (Cons e es)
  obtain r1 s1 where a: "restore_schedule_entry api ws m t (r, s) e = (r1, s1)"
    by (cases "restore_schedule_entry api ws m t (r, s) e")
  from entry_deterministic [OF tok pa, of m t r s e] a obtain d where
    d: "rr_details r1 = rr_details r @ [d]"
       "detail_status d = recorded_status (spec_restore_schedule (resolved_id m t e)
              (get_or (se_schedule e) empty_config) (remote_accepts token answer))"
    by auto
  show ?case
    using Cons.IH [of r1 s1] a d by simp
qed

lemma get_datasets_deterministic:
  assumes tok: "\<forall>w. fst (auth_token api w) = token"
    and lst: "\<forall>w. fst (http_get_datasets api ws w) = listing"
  shows "fst (get_datasets api ws s) = (case token of Inl e \<Rightarrow> Inl e | Inr t \<Rightarrow> listing)"
proof -
  have t: "fst (auth_token api (world s)) = token" using tok by simp
  show ?thesis
  proof (cases token)
    case (Inl e)
    with t show ?thesis
      by (auto simp: get_datasets_def get_access_token_def split: prod.splits)
  next
    case (Inr tk)
    obtain w1 where a: "auth_token api (world s) = (Inr tk, w1)"
      using t Inr by (cases "auth_token api (world s)") simp
    have "fst (http_get_datasets api ws w1) = listing" using lst by simp
    with a Inr show ?thesis
      by (auto simp: get_datasets_def get_access_token_def split: prod.splits)
  qed
qed

lemma update_calls:
  assumes tok: "\<forall>w. fst (auth_token api w) = token"
  shows "calls (snd (update_refresh_schedule api ws i c s)) =
           calls s @ (if no_request_needed c \<or> isl token then []
                      else [PatchRefreshSchedule ws i (build_payload c)])"
proof (cases "no_request_needed c")
  case True
  then show ?thesis by (simp add: update_noop no_request_needed_def)
next
  case False
  have t: "fst (auth_token api (world s)) = token" using tok by simp
  show ?thesis
  proof (cases token)
    case (Inl e)
    with False t show ?thesis
      by (auto simp: update_refresh_schedule_def Let_def no_request_needed_def
          get_access_token_def split: prod.splits)
  next
    case (Inr tk)
    obtain w1 where a: "auth_token api (world s) = (Inr tk, w1)"
      using t Inr by (cases "auth_token api (world s)") simp
    with False Inr show ?thesis
      by (auto simp: update_refresh_schedule_def Let_def no_request_needed_def
          get_access_token_def split: prod.splits sum.splits)
  qed
qed

lemma entry_calls:
  assumes tok: "\<forall>w. fst (auth_token api w) = token"
  shows "calls (snd (restore_schedule_entry api ws m t (r, s) e)) = calls s @ entry_requests token ws m t e"
proof (cases "falsy (find_dataset_id m t (se_dataset_name e))")
  case True
  then show ?thesis by (simp add: entry_skipped entry_requests_def resolved_id_def)
next
  case False
  then obtain i where i: "find_dataset_id m t (se_dataset_name e) = Some i"
    by (cases "find_dataset_id m t (se_dataset_name e)") (auto simp: falsy_def)
  have nr: "no_request_needed (api_schedule_config c) = no_request_needed c" for c
    by (simp add: no_request_needed_def)
  show ?thesis
    using False i
    by (simp add: entry_resolved Let_def update_calls [OF tok] entry_requests_def resolved_id_def
        nr get_or_def [of "Some i"])
qed

lemma fold_calls:
  assumes tok: "\<forall>w. fst (auth_token api w) = token"
  shows "calls (snd (foldl (restore_schedule_entry api ws m t) (r, s) es)) =
         calls s @ concat (map (entry_requests token ws m t) es)"
proof (induction es arbitrary: r s)
  case Nil
  show ?case by simp
next
  case (Cons e es)
  obtain r1 s1 where a: "restore_schedule_entry api ws m t (r, s) e = (r1, s1)"
    by (cases "restore_schedule_entry api ws m t (r, s) e")
  have "calls s1 = calls s @ entry_requests token ws m t e"
    using entry_calls [OF tok, of ws m t r s e] a by simp
  with Cons.IH [of r1 s1] a show ?case by simp
qed

lemma get_datasets_calls:
  assumes tok: "\<forall>w. fst (auth_token api w) = token"
  shows "calls (snd (get_datasets api ws s)) = calls s @ (if isl token then [] else [GetDatasets ws])"
proof -
  have t: "fst (auth_token api (world s)) = token" using tok by simp
  show ?thesis
  proof (cases token)
    case (Inl e)
    with t show ?thesis
      by (auto simp: get_datasets_def get_access_token_def split: prod.splits)
  next
    case (Inr tk)
    obtain w1 where a: "auth_token api (world s) = (Inr tk, w1)"
      using t Inr by (cases "auth_token api (world s)") simp
    with Inr show ?thesis
      by (auto simp: get_datasets_def get_access_token_def split: prod.splits)
  qed
qed

lemma phase_calls:
  assumes tok: "\<forall>w. fst (auth_token api w) = token"
    and lst: "\<forall>w. fst (http_get_datasets api ws w) = listing"
  shows "calls (snd (restore_refresh_schedules api ws es m s)) =
     calls s @ (if isl token then [] else [GetDatasets ws]) @
     concat (map (entry_requests token ws m
        (datasets_table (case token of Inl x \<Rightarrow> Inl x | Inr t \<Rightarrow> listing) m)) es)"
  unfolding phase_unfold get_datasets_deterministic [OF tok lst]
  by (simp add: fold_calls [OF tok] get_datasets_calls [OF tok])

text \<open>
  Claim C7. Against a target that answers each request the same way every time (the token,
  the listing and the answer to an update depend only on the request), running the phase
  a second time, from the state the first run left, gives the same result record as the
  first run. Entry by entry the recorded status is the one the decision rule of the
  specification gives: skipped when the dataset does not resolve, success without a
  request when the schedule is disabled or lacks days or times, restored when the update
  is accepted and failed otherwise. Both runs send the same requests, and an entry that
  needs no request sends none.
\<close>

theorem refresh_schedules_idempotent:
  assumes tok: "\<forall>w. fst (auth_token api w) = token"
    and lst: "\<forall>w. fst (http_get_datasets api ws w) = listing"
    and pa: "\<forall>w i p. fst (http_patch_schedule api ws i p w) = answer i p"
  shows "fst (restore_refresh_schedules api ws es m (snd (restore_refresh_schedules api ws es m s)))
           = fst (restore_refresh_schedules api ws es m s) \<and>
         map detail_status (rr_details (fst (restore_refresh_schedules api ws es m s))) =
           map (\<lambda>e. recorded_status (spec_restore_schedule
                  (resolved_id m (datasets_table (case token of Inl x \<Rightarrow> Inl x | Inr t \<Rightarrow> listing) m) e)
                  (get_or (se_schedule e) empty_config) (remote_accepts token answer))) es \<and>
         calls (snd (restore_refresh_schedules api ws es m s)) =
           calls s @ (if isl token then [] else [GetDatasets ws]) @
           concat (map (entry_requests token ws m
             (datasets_table (case token of Inl x \<Rightarrow> Inl x | Inr t \<Rightarrow> listing) m)) es) \<and>
         calls (snd (restore_refresh_schedules api ws es m (snd (restore_refresh_schedules api ws es m s)))) =
           calls (snd (restore_refresh_schedules api ws es m s)) @
           (if isl token then [] else [GetDatasets ws]) @
           concat (map (entry_requests token ws m
             (datasets_table (case token of Inl x \<Rightarrow> Inl x | Inr t \<Rightarrow> listing) m)) es)"
proof -
  let ?l = "case token of Inl x \<Rightarrow> Inl x | Inr t \<Rightarrow> listing"
  have g: "fst (get_datasets api ws s') = ?l" for s'
    by (rule get_datasets_deterministic [OF tok lst])
  have one: "fst (restore_refresh_schedules api ws es m s') = fst (restore_refresh_schedules api ws es m s)" for s'
    unfolding phase_unfold g by (rule fold_fst_indep [OF tok pa])
  have two: "map detail_status (rr_details (fst (restore_refresh_schedules api ws es m s))) =
           map (\<lambda>e. recorded_status (spec_restore_schedule (resolved_id m (datasets_table ?l m) e)
                  (get_or (se_schedule e) empty_config) (remote_accepts token answer))) es"
    unfolding phase_unfold g by (simp add: fold_statuses [OF tok pa])
  have three: "calls (snd (restore_refresh_schedules api ws es m s')) =
     calls s' @ (if isl token then [] else [GetDatasets ws]) @
     concat (map (entry_requests token ws m (datasets_table ?l m)) es)" for s'
    by (rule phase_calls [OF tok lst])
  show ?thesis
    using one two three [of s] three [of "snd (restore_refresh_schedules api ws es m s)"] by blast
qed

text \<open>Claim C7 on a concrete run of three entries against the fixed remote.\<close>

theorem refresh_schedules_idempotent_witness:
  "(\<forall>w. fst (auth_token (fixed_api (Inr ''token'') (Inr listing_X) (Inr 200)) w) = Inr ''token'') \<and>
   (\<forall>w. fst (http_get_datasets (fixed_api (Inr ''token'') (Inr listing_X) (Inr 200)) ''ws'' w) = Inr listing_X) \<and>
   (\<forall>w i p. fst (http_patch_schedule (fixed_api (Inr ''token'') (Inr listing_X) (Inr 200)) ''ws'' i p w) = Inr 200) \<and>
   fst (restore_refresh_schedules (fixed_api (Inr ''token'') (Inr listing_X) (Inr 200)) ''ws''
          three_entries (Some [(''Y'', ''id-y'')])
          (snd (restore_refresh_schedules (fixed_api (Inr ''token'') (Inr listing_X) (Inr 200)) ''ws''
                  three_entries (Some [(''Y'', ''id-y'')]) start)))
     = fst (restore_refresh_schedules (fixed_api (Inr ''token'') (Inr listing_X) (Inr 200)) ''ws''
          three_entries (Some [(''Y'', ''id-y'')]) start) \<and>
   map detail_status (rr_details (fst (restore_refresh_schedules
          (fixed_api (Inr ''token'') (Inr listing_X) (Inr 200)) ''ws''
          three_entries (Some [(''Y'', ''id-y'')]) start)))
     = [''configured'', ''configured'', ''skipped'']"
proof -
  let ?api = "fixed_api (Inr ''token'') (Inr listing_X) (Inr 200)"
  have tok: "\<forall>w. fst (auth_token ?api w) = Inr ''token''"
    by (simp add: fixed_api_def)
  have lst: "\<forall>w. fst (http_get_datasets ?api ''ws'' w) = Inr listing_X"
    by (simp add: fixed_api_def)
  have pa: "\<forall>w i p. fst (http_patch_schedule ?api ''ws'' i p w) = (\<lambda>i p. Inr 200) i p"
    by (simp add: fixed_api_def)
  have st: "map (\<lambda>e. recorded_status (spec_restore_schedule
                  (resolved_id (Some [(''Y'', ''id-y'')])
                     (datasets_table (case Inr ''token'' of Inl x \<Rightarrow> Inl x | Inr t \<Rightarrow> Inr listing_X)
                        (Some [(''Y'', ''id-y'')])) e)
                  (get_or (se_schedule e) empty_config)
                  (remote_accepts (Inr ''token'') (\<lambda>i p. Inr 200)))) three_entries
            = [''configured'', ''configured'', ''skipped'']"
    by (simp add: three_entries_def spec_restore_schedule_def resolved_id_def remote_accepts_def
        run_defs)
  show ?thesis
    using refresh_schedules_idempotent [OF tok lst pa, of three_entries "Some [(''Y'', ''id-y'')]" start]
      tok lst pa st by simp
qed

lemma entry_requests_resolved:
  "find_dataset_id m t (se_dataset_name e) = Some i \<Longrightarrow> i \<noteq> [] \<Longrightarrow>
   \<not> no_request_needed (get_or (se_schedule e) empty_config) \<Longrightarrow> \<not> isl token \<Longrightarrow>
   entry_requests token ws m t e
     = [PatchRefreshSchedule ws i (build_payload (get_or (se_schedule e) empty_config))]"
  by (simp add: entry_requests_def resolved_id_def falsy_def)

lemma spec_status_configured:
  "find_dataset_id m t (se_dataset_name e) = Some i \<Longrightarrow> i \<noteq> [] \<Longrightarrow>
   no_request_needed c \<or> accepts i (build_payload c) \<Longrightarrow>
   recorded_status (spec_restore_schedule (resolved_id m t e) c accepts) = ''configured''"
  by (auto simp: spec_restore_schedule_def resolved_id_def falsy_def no_request_needed_def)

text \<open>
  Claim C10. When the listing of the target's datasets raises at the start of the phase,
  the phase still returns with status \<^verbatim>\<open>completed\<close>: the lookup table is the supplied
  mapping (the empty dictionary when none is given), every entry is processed and
  \<^verbatim>\<open>restored\<close> counts the configured records. An entry whose name the mapping resolves
  to a non-empty id is never skipped: it is recorded as configured, or as failed when its
  update request was needed. Against a remote whose token and whose answer to an update
  depend only on the request, the status of every entry is the one of the decision rule
  of the specification applied to the id the mapping gives, the requests of the phase are
  the listing followed by the update requests of the entries in order, and for an entry
  the mapping resolves: it is recorded as configured whenever no request is needed or the
  remote accepts the update, and when a request is needed and a token is obtained, the
  update request for the mapped id with the payload built from the entry is among the
  requests sent.
\<close>

theorem listing_failure_uses_mapping:
  assumes fail: "fst (get_datasets api ws s) = Inl err"
  shows "restore_refresh_schedules api ws es m s =
           foldl (restore_schedule_entry api ws m (mapping_or_empty m))
             (\<lparr>rr_status = ''completed'', rr_restored = 0, rr_failed = 0, rr_skipped = 0,
               rr_details = []\<rparr>, snd (get_datasets api ws s)) es \<and>
         mapping_or_empty None = Map.empty \<and>
         rr_status (fst (restore_refresh_schedules api ws es m s)) = ''completed'' \<and>
         length (rr_details (fst (restore_refresh_schedules api ws es m s))) = length es \<and>
         rr_restored (fst (restore_refresh_schedules api ws es m s))
           = count_status ''configured'' (rr_details (fst (restore_refresh_schedules api ws es m s))) \<and>
         (\<forall>k < length es. \<forall>mp n i.
            m = Some mp \<and> se_dataset_name (es ! k) = Some n \<and> map_of mp n = Some i \<and> i \<noteq> [] \<longrightarrow>
            (rr_details (fst (restore_refresh_schedules api ws es m s)) ! k =
               ConfiguredDetail (Some n) i
                 (get_or (sc_frequency (get_or (se_schedule (es ! k)) empty_config)) ''unknown'')
                 (get_or (sc_times (get_or (se_schedule (es ! k)) empty_config)) [])
                 (get_or (sc_days (get_or (se_schedule (es ! k)) empty_config)) [])
             \<or> (\<not> no_request_needed (get_or (se_schedule (es ! k)) empty_config) \<and>
                 rr_details (fst (restore_refresh_schedules api ws es m s)) ! k =
                   FailedDetail (Some n) i
                     (get_or (sc_frequency (get_or (se_schedule (es ! k)) empty_config)) ''unknown'')
                     (get_or (sc_times (get_or (se_schedule (es ! k)) empty_config)) [])
                     (get_or (sc_days (get_or (se_schedule (es ! k)) empty_config)) [])))) \<and>
         ((\<forall>w. fst (auth_token api w) = token) \<and>
          (\<forall>w i p. fst (http_patch_schedule api ws i p w) = answer i p) \<longrightarrow>
            map detail_status (rr_details (fst (restore_refresh_schedules api ws es m s))) =
              map (\<lambda>e. recorded_status (spec_restore_schedule
                     (resolved_id m (mapping_or_empty m) e)
                     (get_or (se_schedule e) empty_config) (remote_accepts token answer))) es \<and>
            calls (snd (restore_refresh_schedules api ws es m s)) =
              calls s @ (if isl token then [] else [GetDatasets ws]) @
              concat (map (entry_requests token ws m (mapping_or_empty m)) es) \<and>
            (\<forall>k < length es. \<forall>mp n i.
               m = Some mp \<and> se_dataset_name (es ! k) = Some n \<and> map_of mp n = Some i \<and> i \<noteq> [] \<longrightarrow>
               ((no_request_needed (get_or (se_schedule (es ! k)) empty_config) \<or>
                 remote_accepts token answer i
                   (build_payload (get_or (se_schedule (es ! k)) empty_config)) \<longrightarrow>
                 rr_details (fst (restore_refresh_schedules api ws es m s)) ! k =
                   ConfiguredDetail (Some n) i
                     (get_or (sc_frequency (get_or (se_schedule (es ! k)) empty_config)) ''unknown'')
                     (get_or (sc_times (get_or (se_schedule (es ! k)) empty_config)) [])
                     (get_or (sc_days (get_or (se_schedule (es ! k)) empty_config)) [])) \<and>
                (\<not> no_request_needed (get_or (se_schedule (es ! k)) empty_config) \<and> \<not> isl token \<longrightarrow>
                 PatchRefreshSchedule ws i
                   (build_payload (get_or (se_schedule (es ! k)) empty_config))
                   \<in> set (calls (snd (restore_refresh_schedules api ws es m s)))))))"
proof -
  let ?r = "fst (restore_refresh_schedules api ws es m s)"
  let ?t = "mapping_or_empty m"
  let ?c = "\<lambda>k. get_or (se_schedule (es ! k)) empty_config"
  let ?conf = "\<lambda>k n i. ConfiguredDetail (Some n) i (get_or (sc_frequency (?c k)) ''unknown'')
                 (get_or (sc_times (?c k)) []) (get_or (sc_days (?c k)) [])"
  let ?fail = "\<lambda>k n i. FailedDetail (Some n) i (get_or (sc_frequency (?c k)) ''unknown'')
                 (get_or (sc_times (?c k)) []) (get_or (sc_days (?c k)) [])"
  have t: "datasets_table (fst (get_datasets api ws s)) m = ?t"
    using fail by (simp add: datasets_table_def)
  from phase_details [of api ws es m s]
  have all2: "list_all2 (entry_detail_ok m ?t) es (rr_details ?r)"
    and st: "rr_status ?r = ''completed''"
    and rs: "rr_restored ?r = count_status ''configured'' (rr_details ?r)"
    by (simp_all add: t)
  have len: "length (rr_details ?r) = length es"
    using all2 by (simp add: list_all2_lengthD)
  have nth: "entry_detail_ok m ?t (es ! k) (rr_details ?r ! k)" if "k < length es" for k
    using all2 that by (rule list_all2_nthD)
  have found: "find_dataset_id m ?t (se_dataset_name (es ! k)) = Some i"
    if "m = Some mp" "se_dataset_name (es ! k) = Some n" "map_of mp n = Some i" for k mp n i
    using that by (simp add: find_prefers_mapping)
  have main: "rr_details ?r ! k = ?conf k n i
             \<or> (\<not> no_request_needed (?c k) \<and> rr_details ?r ! k = ?fail k n i)"
    if k: "k < length es" and m: "m = Some mp" and n: "se_dataset_name (es ! k) = Some n"
      and i: "map_of mp n = Some i" and ne: "i \<noteq> []" for k mp n i
  proof -
    have f: "find_dataset_id m ?t (Some n) = Some i"
      using found [OF m n i] n by simp
    show ?thesis
      using nth [OF k] ne
      by (simp add: entry_detail_ok_def Let_def f falsy_def get_or_def [of "Some i"] n)
  qed
  have u: "restore_refresh_schedules api ws es m s =
           foldl (restore_schedule_entry api ws m ?t)
             (\<lparr>rr_status = ''completed'', rr_restored = 0, rr_failed = 0, rr_skipped = 0,
               rr_details = []\<rparr>, snd (get_datasets api ws s)) es"
    by (simp add: phase_unfold t)
  have e: "mapping_or_empty None = Map.empty"
    by (simp add: mapping_or_empty_def)
  have det: "map detail_status (rr_details ?r) =
              map (\<lambda>e. recorded_status (spec_restore_schedule (resolved_id m ?t e)
                     (get_or (se_schedule e) empty_config) (remote_accepts token answer))) es \<and>
            calls (snd (restore_refresh_schedules api ws es m s)) =
              calls s @ (if isl token then [] else [GetDatasets ws]) @
              concat (map (entry_requests token ws m ?t) es) \<and>
            (\<forall>k < length es. \<forall>mp n i.
               m = Some mp \<and> se_dataset_name (es ! k) = Some n \<and> map_of mp n = Some i \<and> i \<noteq> [] \<longrightarrow>
               ((no_request_needed (?c k) \<or> remote_accepts token answer i (build_payload (?c k)) \<longrightarrow>
                 rr_details ?r ! k = ?conf k n i) \<and>
                (\<not> no_request_needed (?c k) \<and> \<not> isl token \<longrightarrow>
                 PatchRefreshSchedule ws i (build_payload (?c k))
                   \<in> set (calls (snd (restore_refresh_schedules api ws es m s))))))"
    if tok: "\<forall>w. fst (auth_token api w) = token"
      and pa: "\<forall>w i p. fst (http_patch_schedule api ws i p w) = answer i p"
  proof -
    have sts: "map detail_status (rr_details ?r) =
              map (\<lambda>e. recorded_status (spec_restore_schedule (resolved_id m ?t e)
                     (get_or (se_schedule e) empty_config) (remote_accepts token answer))) es"
      unfolding u by (simp add: fold_statuses [OF tok pa])
    have cl: "calls (snd (restore_refresh_schedules api ws es m s)) =
              calls s @ (if isl token then [] else [GetDatasets ws]) @
              concat (map (entry_requests token ws m ?t) es)"
      unfolding u by (simp add: fold_calls [OF tok] get_datasets_calls [OF tok])
    have per: "(no_request_needed (?c k) \<or> remote_accepts token answer i (build_payload (?c k)) \<longrightarrow>
                 rr_details ?r ! k = ?conf k n i) \<and>
                (\<not> no_request_needed (?c k) \<and> \<not> isl token \<longrightarrow>
                 PatchRefreshSchedule ws i (build_payload (?c k))
                   \<in> set (calls (snd (restore_refresh_schedules api ws es m s))))"
      if k: "k < length es" and m: "m = Some mp" and n: "se_dataset_name (es ! k) = Some n"
        and i: "map_of mp n = Some i" and ne: "i \<noteq> []" for k mp n i
    proof (intro conjI impI)
      assume ok: "no_request_needed (?c k) \<or> remote_accepts token answer i (build_payload (?c k))"
      have "detail_status (rr_details ?r ! k) =
          recorded_status (spec_restore_schedule (resolved_id m ?t (es ! k)) (?c k)
             (remote_accepts token answer))"
        using arg_cong [OF sts, of "\<lambda>xs. xs ! k"] k len by simp
      also have "\<dots> = ''configured''"
        by (rule spec_status_configured [where accepts = "remote_accepts token answer",
              OF found [OF m n i] ne ok])
      finally have "detail_status (rr_details ?r ! k) = ''configured''" .
      with main [OF k m n i ne] show "rr_details ?r ! k = ?conf k n i"
        by auto
    next
      assume rq: "\<not> no_request_needed (?c k) \<and> \<not> isl token"
      have "entry_requests token ws m ?t (es ! k) = [PatchRefreshSchedule ws i (build_payload (?c k))]"
        using entry_requests_resolved [OF found [OF m n i] ne] rq by simp
      moreover have "es ! k \<in> set es" using k by simp
      ultimately have "PatchRefreshSchedule ws i (build_payload (?c k))
          \<in> set (concat (map (entry_requests token ws m ?t) es))"
        by force
      then show "PatchRefreshSchedule ws i (build_payload (?c k))
          \<in> set (calls (snd (restore_refresh_schedules api ws es m s)))"
        by (simp add: cl)
    qed
    show ?thesis
      using sts cl per by blast
  qed
  show ?thesis
    using u e st len rs main det by blast
qed

text \<open>
  Claim C10 on a concrete run: the listing answers with an error, the mapping knows
  \<^verbatim>\<open>Y\<close> and \<^verbatim>\<open>Z\<close>. The entry \<^verbatim>\<open>X\<close> is skipped, the disabled \<^verbatim>\<open>Y\<close> is configured without
  a request, and \<^verbatim>\<open>Z\<close> is configured by the one update request sent.
\<close>

theorem listing_failure_uses_mapping_witness:
  "fst (get_datasets (fixed_api (Inr ''token'') (Inl (RemoteError ''503'')) (Inr 200)) ''ws'' start)
     = Inl (RemoteError ''503'') \<and>
   (2::nat) < length three_entries \<and>
   se_dataset_name (three_entries ! 2) = Some ''Z'' \<and>
   map_of [(''Y'', ''id-y''), (''Z'', ''id-z'')] ''Z'' = Some ''id-z'' \<and>
   \<not> no_request_needed (get_or (se_schedule (three_entries ! 2)) empty_config) \<and>
   rr_status (fst (restore_refresh_schedules
     (fixed_api (Inr ''token'') (Inl (RemoteError ''503'')) (Inr 200)) ''ws''
     three_entries (Some [(''Y'', ''id-y''), (''Z'', ''id-z'')]) start)) = ''completed'' \<and>
   rr_details (fst (restore_refresh_schedules
     (fixed_api (Inr ''token'') (Inl (RemoteError ''503'')) (Inr 200)) ''ws''
     three_entries (Some [(''Y'', ''id-y''), (''Z'', ''id-z'')]) start)) ! 2
     = ConfiguredDetail (Some ''Z'') ''id-z'' ''unknown'' [''01:00''] [''Monday''] \<and>
   map detail_status (rr_details (fst (restore_refresh_schedules
     (fixed_api (Inr ''token'') (Inl (RemoteError ''503'')) (Inr 200)) ''ws''
     three_entries (Some [(''Y'', ''id-y''), (''Z'', ''id-z'')]) start)))
     = [''skipped'', ''configured'', ''configured''] \<and>
   calls (snd (restore_refresh_schedules
     (fixed_api (Inr ''token'') (Inl (RemoteError ''503'')) (Inr 200)) ''ws''
     three_entries (Some [(''Y'', ''id-y''), (''Z'', ''id-z'')]) start))
     = [GetDatasets ''ws'',
        PatchRefreshSchedule ''ws'' ''id-z''
          (build_payload (schedule_of True [''Monday''] [''01:00'']))] \<and>
   PatchRefreshSchedule ''ws'' ''id-z'' (build_payload (schedule_of True [''Monday''] [''01:00'']))
     \<in> set (calls (snd (restore_refresh_schedules
     (fixed_api (Inr ''token'') (Inl (RemoteError ''503'')) (Inr 200)) ''ws''
     three_entries (Some [(''Y'', ''id-y''), (''Z'', ''id-z'')]) start)))"
proof -
  let ?api = "fixed_api (Inr ''token'') (Inl (RemoteError ''503'')) (Inr 200)"
  let ?m = "[(''Y'', ''id-y''), (''Z'', ''id-z'')]"
  let ?run = "restore_refresh_schedules ?api ''ws'' three_entries (Some ?m) start"
  let ?c = "get_or (se_schedule (three_entries ! 2)) empty_config"
  let ?answer = "\<lambda>(i::string) (p::payload). (Inr 200 :: error + nat)"
  let ?token = "Inr ''token'' :: error + string"
  have h0: "fst (get_datasets ?api ''ws'' start) = Inl (RemoteError ''503'')"
    by (simp add: run_defs)
  have h1: "(2::nat) < length three_entries" by (simp add: three_entries_def)
  have h2: "se_dataset_name (three_entries ! 2) = Some ''Z''"
    by (simp add: three_entries_def entry_of_def)
  have h3: "map_of ?m ''Z'' = Some ''id-z''" by simp
  have h4: "''id-z'' \<noteq> []" by simp
  have c: "?c = schedule_of True [''Monday''] [''01:00'']"
    by (simp add: three_entries_def entry_of_def get_or_def)
  have h5: "\<not> no_request_needed ?c"
    unfolding c by (simp add: no_request_needed_def schedule_of_def get_or_def)
  have h6: "remote_accepts ?token ?answer ''id-z'' (build_payload ?c)"
    by (simp add: remote_accepts_def accepted_status_def)
  have h7: "\<not> isl ?token" by simp
  have tok: "\<forall>w. fst (auth_token ?api w) = ?token"
    by (simp add: fixed_api_def)
  have pa: "\<forall>w i p. fst (http_patch_schedule ?api ''ws'' i p w) = ?answer i p"
    by (simp add: fixed_api_def)
  note inst = listing_failure_uses_mapping [OF h0, of three_entries "Some ?m" ?token ?answer]
  have st: "rr_status (fst ?run) = ''completed''"
    using inst by blast
  have sts: "map detail_status (rr_details (fst ?run)) =
      map (\<lambda>e. recorded_status (spec_restore_schedule
             (resolved_id (Some ?m) (mapping_or_empty (Some ?m)) e)
             (get_or (se_schedule e) empty_config) (remote_accepts ?token ?answer))) three_entries"
    using inst tok pa by blast
  have cl: "calls (snd ?run) =
      calls start @ (if isl ?token then [] else [GetDatasets ''ws'']) @
      concat (map (entry_requests ?token ''ws'' (Some ?m) (mapping_or_empty (Some ?m))) three_entries)"
    using inst tok pa by blast
  have d: "rr_details (fst ?run) ! 2 =
      ConfiguredDetail (Some ''Z'') ''id-z'' (get_or (sc_frequency ?c) ''unknown'')
        (get_or (sc_times ?c) []) (get_or (sc_days ?c) [])"
    using inst tok pa h1 h2 h3 h4 h6 by blast
  have p: "PatchRefreshSchedule ''ws'' ''id-z'' (build_payload ?c) \<in> set (calls (snd ?run))"
    using inst tok pa h1 h2 h3 h4 h5 h7 by blast
  have sts': "map detail_status (rr_details (fst ?run)) = [''skipped'', ''configured'', ''configured'']"
    unfolding sts
    by (simp add: three_entries_def entry_of_def schedule_of_def spec_restore_schedule_def
        resolved_id_def find_dataset_id_def mapping_or_empty_def falsy_def get_or_def
        remote_accepts_def accepted_status_def)
  have cl': "calls (snd ?run) = [GetDatasets ''ws'',
        PatchRefreshSchedule ''ws'' ''id-z'' (build_payload (schedule_of True [''Monday''] [''01:00'']))]"
    unfolding cl
    by (simp add: three_entries_def entry_of_def entry_requests_def no_request_needed_def
        resolved_id_def find_dataset_id_def mapping_or_empty_def falsy_def get_or_def
        start_def schedule_of_def)
  have d': "rr_details (fst ?run) ! 2
      = ConfiguredDetail (Some ''Z'') ''id-z'' ''unknown'' [''01:00''] [''Monday'']"
    unfolding d c by (simp add: schedule_of_def get_or_def)
  show ?thesis
    using h0 h1 h2 h3 h5 st d' sts' cl' p unfolding c by blast
qed

section \<open>Properties of the Reports phase\<close>

lemma count_pbix_status_simps [simp]:
  "count_pbix_status st [] = 0"
  "count_pbix_status st (ds @ [d]) =
     count_pbix_status st ds + (if pbix_detail_status d = st then 1 else 0)"
  by (simp_all add: count_pbix_status_def)

lemma import_one_files:
  "map pbix_detail_file (pr_details (ls_results (import_one api ws ls f))) =
     map pbix_detail_file (pr_details (ls_results ls)) @ [pf_name f]"
  unfolding import_one_def Let_def
  by (simp split: prod.splits sum.splits local_var.splits)

lemma import_one_failed:
  "pr_failed (ls_results ls) =
     count_pbix_status ''failed'' (pr_details (ls_results ls)) +
     count_pbix_status ''error'' (pr_details (ls_results ls)) \<Longrightarrow>
   pr_failed (ls_results (import_one api ws ls f)) =
     count_pbix_status ''failed'' (pr_details (ls_results (import_one api ws ls f))) +
     count_pbix_status ''error'' (pr_details (ls_results (import_one api ws ls f)))"
  unfolding import_one_def Let_def
  by (simp split: prod.splits sum.splits local_var.splits)

lemma import_one_imported:
  "pr_imported (ls_results ls) =
     count_pbix_status ''imported'' (pr_details (ls_results ls)) +
     count_pbix_status ''error'' (pr_details (ls_results ls)) \<Longrightarrow>
   pr_imported (ls_results (import_one api ws ls f)) =
     count_pbix_status ''imported'' (pr_details (ls_results (import_one api ws ls f))) +
     count_pbix_status ''error'' (pr_details (ls_results (import_one api ws ls f)))"
  unfolding import_one_def Let_def
  by (simp split: prod.splits sum.splits local_var.splits)

lemma import_one_found:
  "pr_pbix_files_found (ls_results (import_one api ws ls f)) = pr_pbix_files_found (ls_results ls)"
  unfolding import_one_def Let_def
  by (simp split: prod.splits sum.splits local_var.splits)

lemma import_fold_files:
  "map pbix_detail_file (pr_details (ls_results (foldl (import_one api ws) ls fs))) =
     map pbix_detail_file (pr_details (ls_results ls)) @ map pf_name fs"
  by (induction fs arbitrary: ls) (simp_all add: import_one_files)

lemma import_fold_failed:
  "pr_failed (ls_results ls) =
     count_pbix_status ''failed'' (pr_details (ls_results ls)) +
     count_pbix_status ''error'' (pr_details (ls_results ls)) \<Longrightarrow>
   pr_failed (ls_results (foldl (import_one api ws) ls fs)) =
     count_pbix_status ''failed'' (pr_details (ls_results (foldl (import_one api ws) ls fs))) +
     count_pbix_status ''error'' (pr_details (ls_results (foldl (import_one api ws) ls fs)))"
  by (induction fs arbitrary: ls) (simp_all add: import_one_failed)

lemma import_fold_imported:
  "pr_imported (ls_results ls) =
     count_pbix_status ''imported'' (pr_details (ls_results ls)) +
     count_pbix_status ''error'' (pr_details (ls_results ls)) \<Longrightarrow>
   pr_imported (ls_results (foldl (import_one api ws) ls fs)) =
     count_pbix_status ''imported'' (pr_details (ls_results (foldl (import_one api ws) ls fs))) +
     count_pbix_status ''error'' (pr_details (ls_results (foldl (import_one api ws) ls fs)))"
  by (induction fs arbitrary: ls) (simp_all add: import_one_imported)

lemma import_fold_found:
  "pr_pbix_files_found (ls_results (foldl (import_one api ws) ls fs)) = pr_pbix_files_found (ls_results ls)"
  by (induction fs arbitrary: ls) (simp_all add: import_one_found)

text \<open>
  Two concrete runs of the phase, each evaluated once. In the first the directory holds
  \<^verbatim>\<open>c.pbix\<close>, \<^verbatim>\<open>a.pbix\<close> and \<^verbatim>\<open>b.pbix\<close>, the workspace is empty, and \<^verbatim>\<open>stat()\<close> raises
  for \<^verbatim>\<open>b.pbix\<close>. In the second the workspace holds \<^verbatim>\<open>A\<close> and \<^verbatim>\<open>A_2\<close> and the directory
  holds \<^verbatim>\<open>A.pbix\<close>.
\<close>

lemma run_abc:
  "restore_reports_pbix (sim_api [''c.pbix'', ''a.pbix'', ''b.pbix''] stat_b_gone)
      ''ws'' ''reports'' (workspace_with [])
   = (\<lparr>pr_status = ''completed'', pr_imported = 3, pr_failed = 1, pr_duplicate_handled = 0,
       pr_details = [ImportedDetail ''a.pbix'' ''a'' ''a'' ''id-a'' 2048,
                     ImportErrorDetail ''b.pbix'' ''gone'',
                     ImportedDetail ''c.pbix'' ''c'' ''c'' ''id-c'' 2048],
       pr_pbix_files_found = 3, pr_target_workspace_id = ''ws'',
       pr_dataset_id_mapping = [(''a'', ''id-a''), (''b'', ''id-b''), (''c'', ''id-c'')],
       pr_error = None, pr_message = Some ''Imported 3/3 PBIX files''\<rparr>,
      \<lparr>world = [\<lparr>ds_name = Name ''a'', ds_id = Some ''id-a''\<rparr>,
                \<lparr>ds_name = Name ''b'', ds_id = Some ''id-b''\<rparr>,
                \<lparr>ds_name = Name ''c'', ds_id = Some ''id-c''\<rparr>],
       calls = [GetDatasets ''ws'', GetDatasets ''ws'', PostImport ''ws'' ''a'',
                GetDatasets ''ws'', GetDatasets ''ws'', PostImport ''ws'' ''b'',
                GetDatasets ''ws'', GetDatasets ''ws'', PostImport ''ws'' ''c'',
                GetDatasets ''ws'']\<rparr>)"
  by code_simp

lemma run_A:
  "restore_reports_pbix (sim_api [''A.pbix''] stat_ok) ''ws'' ''reports''
      (workspace_with [''A'', ''A_2''])
   = (\<lparr>pr_status = ''completed'', pr_imported = 1, pr_failed = 0, pr_duplicate_handled = 1,
       pr_details = [ImportedDetail ''A.pbix'' ''A_1'' ''A'' ''pending'' 2048],
       pr_pbix_files_found = 1, pr_target_workspace_id = ''ws'',
       pr_dataset_id_mapping = [],
       pr_error = None, pr_message = Some ''Imported 1/1 PBIX files''\<rparr>,
      \<lparr>world = [\<lparr>ds_name = Name ''A'', ds_id = Some ''id-A''\<rparr>,
                \<lparr>ds_name = Name ''A_2'', ds_id = Some ''id-A_2''\<rparr>,
                \<lparr>ds_name = Name ''A_3'', ds_id = Some ''id-A_3''\<rparr>],
       calls = [GetDatasets ''ws'', GetDatasets ''ws'', PostImport ''ws'' ''A_3'',
                GetDatasets ''ws'']\<rparr>)"
  by code_simp

text \<open>
  The three ways an item can fail, as one step of the loop from any loop state: the
  import returns \<^verbatim>\<open>False\<close>; \<^verbatim>\<open>stat()\<close> raises after an accepted import; the listing after
  an accepted import raises while \<^verbatim>\<open>new_dataset_id\<close> is still unbound.
\<close>

lemma import_one_false:
  assumes "import_pbix api ws f
             (Some (fst (resolve_name (stem f) (ls_existing_datasets ls)))) (ls_st ls) = (False, s1)"
  shows "pr_details (ls_results (import_one api ws ls f)) =
           pr_details (ls_results ls) @
             [ImportFailedDetail (pf_name f) (fst (resolve_name (stem f) (ls_existing_datasets ls)))] \<and>
         pr_failed (ls_results (import_one api ws ls f)) = pr_failed (ls_results ls) + 1 \<and>
         pr_imported (ls_results (import_one api ws ls f)) = pr_imported (ls_results ls)"
  using assms unfolding import_one_def Let_def by simp

lemma import_one_stat_error:
  assumes "import_pbix api ws f
             (Some (fst (resolve_name (stem f) (ls_existing_datasets ls)))) (ls_st ls) = (True, s1)"
    and "get_datasets api ws s1 = (Inr value_list, s2)"
    and "fs_stat_size api (world s2) (path_str f) = Inl e"
  shows "pr_details (ls_results (import_one api ws ls f)) =
           pr_details (ls_results ls) @ [ImportErrorDetail (pf_name f) (str_of_error e)] \<and>
         pr_failed (ls_results (import_one api ws ls f)) = pr_failed (ls_results ls) + 1 \<and>
         pr_imported (ls_results (import_one api ws ls f)) = pr_imported (ls_results ls) + 1"
  using assms unfolding import_one_def Let_def by simp

lemma import_one_unbound:
  assumes "import_pbix api ws f
             (Some (fst (resolve_name (stem f) (ls_existing_datasets ls)))) (ls_st ls) = (True, s1)"
    and "get_datasets api ws s1 = (Inl e, s2)"
    and "ls_new_dataset_id ls = Unbound"
  shows "pr_details (ls_results (import_one api ws ls f)) =
           pr_details (ls_results ls) @
             [ImportErrorDetail (pf_name f)
                ''cannot access local variable 'new_dataset_id' where it is not associated with a value''] \<and>
         pr_failed (ls_results (import_one api ws ls f)) = pr_failed (ls_results ls) + 1 \<and>
         pr_imported (ls_results (import_one api ws ls f)) = pr_imported (ls_results ls) + 1"
  using assms unfolding import_one_def Let_def by simp

text \<open>
  Claim C6. In the Reports phase every file of the directory gets exactly one detail
  record, in the order of the sorted names, and the phase ends with status
  \<^verbatim>\<open>completed\<close>: an exception raised while an item is processed is caught inside the
  loop, recorded as an error record and counted in \<^verbatim>\<open>failed\<close>, and the loop goes on with
  the next file; \<^verbatim>\<open>failed\<close> is the number of failed records plus the number of error
  records. The summary does not keep the outcomes of the items apart: the statements of
  the loop body that can raise (lines 135 and 136) come after \<^verbatim>\<open>imported\<close> was
  incremented at line 130, so \<^verbatim>\<open>imported\<close> is the number of imported records plus the
  number of error records, \<^verbatim>\<open>imported\<close> and \<^verbatim>\<open>failed\<close> together exceed the number of files
  by the number of error records, and the message reports this value of \<^verbatim>\<open>imported\<close>.
  Item by item, from any loop state: an import that returns \<^verbatim>\<open>False\<close> appends a failed
  record and increments \<^verbatim>\<open>failed\<close> only; an accepted import whose \<^verbatim>\<open>stat()\<close> raises, or
  whose listing raises while \<^verbatim>\<open>new_dataset_id\<close> is unbound, appends an error record with
  the text of the exception and increments both \<^verbatim>\<open>failed\<close> and \<^verbatim>\<open>imported\<close>.
\<close>

theorem failed_item_counted_as_imported:
  "(fs_exists api (world s) path \<and> fs_glob_pbix api (world s) path = Inr names \<and>
    names \<noteq> [] \<longrightarrow>
         pr_status (fst (restore_reports_pbix api ws path s)) = ''completed'' \<and>
         map pbix_detail_file (pr_details (fst (restore_reports_pbix api ws path s))) = sort names \<and>
         pr_pbix_files_found (fst (restore_reports_pbix api ws path s)) = length names \<and>
         pr_failed (fst (restore_reports_pbix api ws path s))
           = count_pbix_status ''failed'' (pr_details (fst (restore_reports_pbix api ws path s)))
             + count_pbix_status ''error'' (pr_details (fst (restore_reports_pbix api ws path s))) \<and>
         pr_imported (fst (restore_reports_pbix api ws path s))
           = count_pbix_status ''imported'' (pr_details (fst (restore_reports_pbix api ws path s)))
             + count_pbix_status ''error'' (pr_details (fst (restore_reports_pbix api ws path s))) \<and>
         pr_imported (fst (restore_reports_pbix api ws path s))
           + pr_failed (fst (restore_reports_pbix api ws path s))
           = length names
             + count_pbix_status ''error'' (pr_details (fst (restore_reports_pbix api ws path s))) \<and>
         pr_message (fst (restore_reports_pbix api ws path s))
           = Some (''Imported '' @ str_nat (pr_imported (fst (restore_reports_pbix api ws path s)))
               @ ''/'' @ str_nat (length names) @ '' PBIX files'')) \<and>
   (\<forall>ls f s1.
      import_pbix api ws f (Some (fst (resolve_name (stem f) (ls_existing_datasets ls)))) (ls_st ls)
        = (False, s1) \<longrightarrow>
      pr_details (ls_results (import_one api ws ls f)) =
        pr_details (ls_results ls) @
          [ImportFailedDetail (pf_name f) (fst (resolve_name (stem f) (ls_existing_datasets ls)))] \<and>
      pr_failed (ls_results (import_one api ws ls f)) = pr_failed (ls_results ls) + 1 \<and>
      pr_imported (ls_results (import_one api ws ls f)) = pr_imported (ls_results ls)) \<and>
   (\<forall>ls f s1 value_list s2 e.
      import_pbix api ws f (Some (fst (resolve_name (stem f) (ls_existing_datasets ls)))) (ls_st ls)
        = (True, s1) \<and>
      get_datasets api ws s1 = (Inr value_list, s2) \<and>
      fs_stat_size api (world s2) (path_str f) = Inl e \<longrightarrow>
      pr_details (ls_results (import_one api ws ls f)) =
        pr_details (ls_results ls) @ [ImportErrorDetail (pf_name f) (str_of_error e)] \<and>
      pr_failed (ls_results (import_one api ws ls f)) = pr_failed (ls_results ls) + 1 \<and>
      pr_imported (ls_results (import_one api ws ls f)) = pr_imported (ls_results ls) + 1) \<and>
   (\<forall>ls f s1 e s2.
      import_pbix api ws f (Some (fst (resolve_name (stem f) (ls_existing_datasets ls)))) (ls_st ls)
        = (True, s1) \<and>
      get_datasets api ws s1 = (Inl e, s2) \<and>
      ls_new_dataset_id ls = Unbound \<longrightarrow>
      pr_details (ls_results (import_one api ws ls f)) =
        pr_details (ls_results ls) @
          [ImportErrorDetail (pf_name f)
             ''cannot access local variable 'new_dataset_id' where it is not associated with a value''] \<and>
      pr_failed (ls_results (import_one api ws ls f)) = pr_failed (ls_results ls) + 1 \<and>
      pr_imported (ls_results (import_one api ws ls f)) = pr_imported (ls_results ls) + 1)"
proof -
  have phase: "pr_status (fst (restore_reports_pbix api ws path s)) = ''completed'' \<and>
      map pbix_detail_file (pr_details (fst (restore_reports_pbix api ws path s))) = sort names \<and>
      pr_pbix_files_found (fst (restore_reports_pbix api ws path s)) = length names \<and>
      pr_failed (fst (restore_reports_pbix api ws path s))
        = count_pbix_status ''failed'' (pr_details (fst (restore_reports_pbix api ws path s)))
          + count_pbix_status ''error'' (pr_details (fst (restore_reports_pbix api ws path s))) \<and>
      pr_imported (fst (restore_reports_pbix api ws path s))
        = count_pbix_status ''imported'' (pr_details (fst (restore_reports_pbix api ws path s)))
          + count_pbix_status ''error'' (pr_details (fst (restore_reports_pbix api ws path s))) \<and>
      pr_imported (fst (restore_reports_pbix api ws path s))
        + pr_failed (fst (restore_reports_pbix api ws path s))
        = length names
          + count_pbix_status ''error'' (pr_details (fst (restore_reports_pbix api ws path s))) \<and>
      pr_message (fst (restore_reports_pbix api ws path s))
        = Some (''Imported '' @ str_nat (pr_imported (fst (restore_reports_pbix api ws path s)))
            @ ''/'' @ str_nat (length names) @ '' PBIX files'')"
    if ex: "fs_exists api (world s) path" and gl: "fs_glob_pbix api (world s) path = Inr names"
      and ne: "names \<noteq> []"
  proof -
    let ?files = "map (\<lambda>n. \<lparr>pf_dir = path, pf_name = n\<rparr>) (sort names)"
    let ?r = "fst (restore_reports_pbix api ws path s)"
    have sne: "sort names \<noteq> []"
      using ne by (metis length_0_conv length_sort)
    obtain listing s1 where g: "get_datasets api ws s = (listing, s1)"
      by (cases "get_datasets api ws s")
    define ls0 where "ls0 =
       \<lparr>ls_results = \<lparr>pr_status = ''in_progress'', pr_imported = 0, pr_failed = 0,
                      pr_duplicate_handled = 0, pr_details = [], pr_pbix_files_found = length names,
                      pr_target_workspace_id = ws, pr_dataset_id_mapping = [],
                      pr_error = None, pr_message = None\<rparr>,
        ls_existing_datasets = (case listing of Inl e \<Rightarrow> []
                                 | Inr value_list \<Rightarrow> map get_name_or_empty value_list),
        ls_new_dataset_id = Unbound, ls_st = s1\<rparr>"
    define R where "R = ls_results (foldl (import_one api ws) ls0 ?files)"
    have r: "?r = R\<lparr>pr_status := ''completed'',
         pr_message := Some (''Imported '' @ str_nat (pr_imported R)
            @ ''/'' @ str_nat (length names) @ '' PBIX files'')\<rparr>"
      using ex gl sne g by (simp add: restore_reports_pbix_def Let_def ls0_def R_def)
    have files: "map pbix_detail_file (pr_details R) = sort names"
      unfolding R_def by (simp add: import_fold_files ls0_def comp_def)
    have found: "pr_pbix_files_found R = length names"
      unfolding R_def by (simp add: import_fold_found ls0_def)
    have failed: "pr_failed R = count_pbix_status ''failed'' (pr_details R)
        + count_pbix_status ''error'' (pr_details R)"
      unfolding R_def by (rule import_fold_failed) (simp add: ls0_def)
    have imported: "pr_imported R = count_pbix_status ''imported'' (pr_details R)
        + count_pbix_status ''error'' (pr_details R)"
      unfolding R_def by (rule import_fold_imported) (simp add: ls0_def)
    have total: "count_pbix_status ''imported'' ds + count_pbix_status ''failed'' ds
        + count_pbix_status ''error'' ds = length ds" for ds
    proof (induction ds)
      case Nil
      show ?case by simp
    next
      case (Cons d ds)
      then show ?case
        by (cases d) (simp_all add: count_pbix_status_def)
    qed
    have len: "length (pr_details R) = length names"
      using arg_cong [OF files, of length] by simp
    have sum: "pr_imported R + pr_failed R = length names + count_pbix_status ''error'' (pr_details R)"
      using total [of "pr_details R"] failed imported len by simp
    show ?thesis
      unfolding r using files found failed imported sum by simp
  qed
  show ?thesis
    using phase import_one_false [of api ws] import_one_stat_error [of api ws]
      import_one_unbound [of api ws]
    by (intro conjI impI allI) blast+
qed

text \<open>
  Claim C6 on three files \<^verbatim>\<open>a\<close>, \<^verbatim>\<open>b\<close>, \<^verbatim>\<open>c\<close> where \<^verbatim>\<open>stat()\<close> raises for the second
  after its import was accepted: the first and the third are imported, the second is an
  error record, and the summary reads three imported and one failed, with the message
  \<^verbatim>\<open>Imported 3/3 PBIX files\<close> and a mapping entry for the second file. The three steps
  on the file \<^verbatim>\<open>b.pbix\<close> at the first iteration: with \<^verbatim>\<open>stat()\<close> raising, against a remote
  whose token is too short for \<^verbatim>\<open>import_pbix\<close>, and against a remote whose second listing
  raises.
\<close>

theorem failed_item_counted_as_imported_witness:
  "fs_exists (sim_api [''c.pbix'', ''a.pbix'', ''b.pbix''] stat_b_gone) (world (workspace_with []))
     ''reports'' \<and>
   fs_glob_pbix (sim_api [''c.pbix'', ''a.pbix'', ''b.pbix''] stat_b_gone) (world (workspace_with []))
     ''reports'' = Inr [''c.pbix'', ''a.pbix'', ''b.pbix''] \<and>
   pr_status (fst (restore_reports_pbix (sim_api [''c.pbix'', ''a.pbix'', ''b.pbix''] stat_b_gone)
      ''ws'' ''reports'' (workspace_with []))) = ''completed'' \<and>
   pr_details (fst (restore_reports_pbix (sim_api [''c.pbix'', ''a.pbix'', ''b.pbix''] stat_b_gone)
      ''ws'' ''reports'' (workspace_with [])))
     = [ImportedDetail ''a.pbix'' ''a'' ''a'' ''id-a'' 2048,
        ImportErrorDetail ''b.pbix'' ''gone'',
        ImportedDetail ''c.pbix'' ''c'' ''c'' ''id-c'' 2048] \<and>
   pr_pbix_files_found (fst (restore_reports_pbix
      (sim_api [''c.pbix'', ''a.pbix'', ''b.pbix''] stat_b_gone)
      ''ws'' ''reports'' (workspace_with []))) = 3 \<and>
   pr_imported (fst (restore_reports_pbix (sim_api [''c.pbix'', ''a.pbix'', ''b.pbix''] stat_b_gone)
      ''ws'' ''reports'' (workspace_with []))) = 3 \<and>
   pr_failed (fst (restore_reports_pbix (sim_api [''c.pbix'', ''a.pbix'', ''b.pbix''] stat_b_gone)
      ''ws'' ''reports'' (workspace_with []))) = 1 \<and>
   pr_message (fst (restore_reports_pbix (sim_api [''c.pbix'', ''a.pbix'', ''b.pbix''] stat_b_gone)
      ''ws'' ''reports'' (workspace_with []))) = Some ''Imported 3/3 PBIX files'' \<and>
   pr_dataset_id_mapping (fst (restore_reports_pbix
      (sim_api [''c.pbix'', ''a.pbix'', ''b.pbix''] stat_b_gone)
      ''ws'' ''reports'' (workspace_with [])))
     = [(''a'', ''id-a''), (''b'', ''id-b''), (''c'', ''id-c'')] \<and>
   import_pbix (sim_api [''c.pbix'', ''a.pbix'', ''b.pbix''] stat_b_gone) ''ws''
      \<lparr>pf_dir = ''reports'', pf_name = ''b.pbix''\<rparr> (Some ''b'') (workspace_with [])
     = (True, \<lparr>world = [\<lparr>ds_name = Name ''b'', ds_id = Some ''id-b''\<rparr>],
               calls = [GetDatasets ''ws'', PostImport ''ws'' ''b'']\<rparr>) \<and>
   fs_stat_size (sim_api [''c.pbix'', ''a.pbix'', ''b.pbix''] stat_b_gone)
      [\<lparr>ds_name = Name ''b'', ds_id = Some ''id-b''\<rparr>] ''reports/b.pbix'' = Inl (OSError ''gone'') \<and>
   pr_details (ls_results (import_one (sim_api [''c.pbix'', ''a.pbix'', ''b.pbix''] stat_b_gone) ''ws''
      (first_iteration (workspace_with [])) \<lparr>pf_dir = ''reports'', pf_name = ''b.pbix''\<rparr>))
     = [ImportErrorDetail ''b.pbix'' ''gone''] \<and>
   pr_failed (ls_results (import_one (sim_api [''c.pbix'', ''a.pbix'', ''b.pbix''] stat_b_gone) ''ws''
      (first_iteration (workspace_with [])) \<lparr>pf_dir = ''reports'', pf_name = ''b.pbix''\<rparr>)) = 1 \<and>
   pr_imported (ls_results (import_one (sim_api [''c.pbix'', ''a.pbix'', ''b.pbix''] stat_b_gone) ''ws''
      (first_iteration (workspace_with [])) \<lparr>pf_dir = ''reports'', pf_name = ''b.pbix''\<rparr>)) = 1 \<and>
   import_pbix (fixed_api (Inr ''token'') (Inr []) (Inr 200)) ''ws''
      \<lparr>pf_dir = ''reports'', pf_name = ''b.pbix''\<rparr> (Some ''b'') start = (False, start) \<and>
   pr_details (ls_results (import_one (fixed_api (Inr ''token'') (Inr []) (Inr 200)) ''ws''
      (first_iteration start) \<lparr>pf_dir = ''reports'', pf_name = ''b.pbix''\<rparr>))
     = [ImportFailedDetail ''b.pbix'' ''b''] \<and>
   pr_failed (ls_results (import_one (fixed_api (Inr ''token'') (Inr []) (Inr 200)) ''ws''
      (first_iteration start) \<lparr>pf_dir = ''reports'', pf_name = ''b.pbix''\<rparr>)) = 1 \<and>
   pr_imported (ls_results (import_one (fixed_api (Inr ''token'') (Inr []) (Inr 200)) ''ws''
      (first_iteration start) \<lparr>pf_dir = ''reports'', pf_name = ''b.pbix''\<rparr>)) = 0 \<and>
   import_pbix (flaky_api [''b.pbix''] 1) ''ws''
      \<lparr>pf_dir = ''reports'', pf_name = ''b.pbix''\<rparr> (Some ''b'') \<lparr>world = 0, calls = []\<rparr>
     = (True, \<lparr>world = 1, calls = [GetDatasets ''ws'', PostImport ''ws'' ''b'']\<rparr>) \<and>
   fst (get_datasets (flaky_api [''b.pbix''] 1) ''ws''
      \<lparr>world = 1, calls = [GetDatasets ''ws'', PostImport ''ws'' ''b'']\<rparr>)
     = Inl (RemoteError ''503'') \<and>
   pr_details (ls_results (import_one (flaky_api [''b.pbix''] 1) ''ws''
      (first_iteration \<lparr>world = 0, calls = []\<rparr>) \<lparr>pf_dir = ''reports'', pf_name = ''b.pbix''\<rparr>))
     = [ImportErrorDetail ''b.pbix''
         ''cannot access local variable 'new_dataset_id' where it is not associated with a value''] \<and>
   pr_failed (ls_results (import_one (flaky_api [''b.pbix''] 1) ''ws''
      (first_iteration \<lparr>world = 0, calls = []\<rparr>) \<lparr>pf_dir = ''reports'', pf_name = ''b.pbix''\<rparr>)) = 1 \<and>
   pr_imported (ls_results (import_one (flaky_api [''b.pbix''] 1) ''ws''
      (first_iteration \<lparr>world = 0, calls = []\<rparr>) \<lparr>pf_dir = ''reports'', pf_name = ''b.pbix''\<rparr>)) = 1"
proof -
  let ?api = "sim_api [''c.pbix'', ''a.pbix'', ''b.pbix''] stat_b_gone"
  let ?r = "fst (restore_reports_pbix ?api ''ws'' ''reports'' (workspace_with []))"
  let ?b = "\<lparr>pf_dir = ''reports'', pf_name = ''b.pbix''\<rparr>"
  have ex: "fs_exists ?api (world (workspace_with [])) ''reports''"
    by (simp add: sim_api_def)
  have gl: "fs_glob_pbix ?api (world (workspace_with [])) ''reports''
      = Inr [''c.pbix'', ''a.pbix'', ''b.pbix'']"
    by (simp add: sim_api_def)
  have ne: "[''c.pbix'', ''a.pbix'', ''b.pbix''] \<noteq> []"
    by simp
  note inst = failed_item_counted_as_imported [of ?api "workspace_with []" "''reports''"
      "[''c.pbix'', ''a.pbix'', ''b.pbix'']" "''ws''"]
  have d: "pr_details ?r = [ImportedDetail ''a.pbix'' ''a'' ''a'' ''id-a'' 2048,
        ImportErrorDetail ''b.pbix'' ''gone'',
        ImportedDetail ''c.pbix'' ''c'' ''c'' ''id-c'' 2048]"
    by (simp add: run_abc)
  have mp: "pr_dataset_id_mapping ?r = [(''a'', ''id-a''), (''b'', ''id-b''), (''c'', ''id-c'')]"
    by (simp add: run_abc)
  have st: "pr_status ?r = ''completed''"
    using inst ex gl ne by blast
  have found: "pr_pbix_files_found ?r = 3"
    using inst ex gl ne by simp
  have "pr_imported ?r = count_pbix_status ''imported'' (pr_details ?r)
      + count_pbix_status ''error'' (pr_details ?r)"
    using inst ex gl ne by blast
  then have im: "pr_imported ?r = 3"
    unfolding d by (simp add: count_pbix_status_def)
  have "pr_failed ?r = count_pbix_status ''failed'' (pr_details ?r)
      + count_pbix_status ''error'' (pr_details ?r)"
    using inst ex gl ne by blast
  then have fl: "pr_failed ?r = 1"
    unfolding d by (simp add: count_pbix_status_def)
  have "pr_message ?r = Some (''Imported '' @ str_nat (pr_imported ?r)
      @ ''/'' @ str_nat (length [''c.pbix'', ''a.pbix'', ''b.pbix'']) @ '' PBIX files'')"
    using inst ex gl ne by blast
  then have msg: "pr_message ?r = Some ''Imported 3/3 PBIX files''"
    by (simp add: run_abc)
  have rn: "fst (resolve_name (stem ?b) (ls_existing_datasets (first_iteration s))) = ''b''" for s :: "'w st"
    by (simp add: first_iteration_def resolve_name_def stem_def path_stem_def rfind_dot_def)
  have b1: "import_pbix ?api ''ws'' ?b (Some ''b'') (workspace_with [])
     = (True, \<lparr>world = [\<lparr>ds_name = Name ''b'', ds_id = Some ''id-b''\<rparr>],
               calls = [GetDatasets ''ws'', PostImport ''ws'' ''b'']\<rparr>)"
    by code_simp
  have b2: "get_datasets ?api ''ws'' \<lparr>world = [\<lparr>ds_name = Name ''b'', ds_id = Some ''id-b''\<rparr>],
               calls = [GetDatasets ''ws'', PostImport ''ws'' ''b'']\<rparr>
     = (Inr [\<lparr>ds_name = Name ''b'', ds_id = Some ''id-b''\<rparr>],
        \<lparr>world = [\<lparr>ds_name = Name ''b'', ds_id = Some ''id-b''\<rparr>],
         calls = [GetDatasets ''ws'', PostImport ''ws'' ''b'', GetDatasets ''ws'']\<rparr>)"
    by code_simp
  have b3: "fs_stat_size ?api [\<lparr>ds_name = Name ''b'', ds_id = Some ''id-b''\<rparr>] ''reports/b.pbix''
      = Inl (OSError ''gone'')"
    by (simp add: sim_api_def stat_b_gone_def)
  have ps: "path_str ?b = ''reports/b.pbix''"
    by (simp add: path_str_def)
  have bstep: "pr_details (ls_results (import_one ?api ''ws'' (first_iteration (workspace_with [])) ?b))
        = pr_details (ls_results (first_iteration (workspace_with [])))
            @ [ImportErrorDetail (pf_name ?b) (str_of_error (OSError ''gone''))] \<and>
      pr_failed (ls_results (import_one ?api ''ws'' (first_iteration (workspace_with [])) ?b))
        = pr_failed (ls_results (first_iteration (workspace_with []))) + 1 \<and>
      pr_imported (ls_results (import_one ?api ''ws'' (first_iteration (workspace_with [])) ?b))
        = pr_imported (ls_results (first_iteration (workspace_with []))) + 1"
  proof -
    have p1: "import_pbix ?api ''ws'' ?b
        (Some (fst (resolve_name (stem ?b) (ls_existing_datasets (first_iteration (workspace_with []))))))
        (ls_st (first_iteration (workspace_with [])))
      = (True, \<lparr>world = [\<lparr>ds_name = Name ''b'', ds_id = Some ''id-b''\<rparr>],
               calls = [GetDatasets ''ws'', PostImport ''ws'' ''b'']\<rparr>)"
      unfolding rn using b1 by (simp add: first_iteration_def)
    have p3: "fs_stat_size ?api
        (world \<lparr>world = [\<lparr>ds_name = Name ''b'', ds_id = Some ''id-b''\<rparr>],
         calls = [GetDatasets ''ws'', PostImport ''ws'' ''b'', GetDatasets ''ws'']\<rparr>) (path_str ?b)
      = Inl (OSError ''gone'')"
      unfolding ps using b3 by simp
    show ?thesis
      using inst p1 b2 p3 by blast
  qed
  let ?fx = "fixed_api (Inr ''token'') (Inr []) (Inr 200)"
  note instf = failed_item_counted_as_imported [of ?fx start "''reports''" "[]" "''ws''"]
  have f1: "import_pbix ?fx ''ws'' ?b (Some ''b'') start = (False, start)"
    by code_simp
  have fstep: "pr_details (ls_results (import_one ?fx ''ws'' (first_iteration start) ?b))
        = pr_details (ls_results (first_iteration start))
            @ [ImportFailedDetail (pf_name ?b)
                 (fst (resolve_name (stem ?b) (ls_existing_datasets (first_iteration start))))] \<and>
      pr_failed (ls_results (import_one ?fx ''ws'' (first_iteration start) ?b))
        = pr_failed (ls_results (first_iteration start)) + 1 \<and>
      pr_imported (ls_results (import_one ?fx ''ws'' (first_iteration start) ?b))
        = pr_imported (ls_results (first_iteration start))"
  proof -
    have p1: "import_pbix ?fx ''ws'' ?b
        (Some (fst (resolve_name (stem ?b) (ls_existing_datasets (first_iteration start)))))
        (ls_st (first_iteration start)) = (False, start)"
      unfolding rn using f1 by (simp add: first_iteration_def)
    show ?thesis
      using instf p1 by blast
  qed
  let ?fl = "flaky_api [''b.pbix''] 1"
  let ?s0 = "\<lparr>world = 0, calls = []\<rparr> :: nat st"
  note instu = failed_item_counted_as_imported [of ?fl ?s0 "''reports''" "[]" "''ws''"]
  have u1: "import_pbix ?fl ''ws'' ?b (Some ''b'') ?s0
     = (True, \<lparr>world = 1, calls = [GetDatasets ''ws'', PostImport ''ws'' ''b'']\<rparr>)"
    by code_simp
  have u2: "get_datasets ?fl ''ws'' \<lparr>world = 1, calls = [GetDatasets ''ws'', PostImport ''ws'' ''b'']\<rparr>
     = (Inl (RemoteError ''503''),
        \<lparr>world = 2, calls = [GetDatasets ''ws'', PostImport ''ws'' ''b'', GetDatasets ''ws'']\<rparr>)"
    by code_simp
  have ustep: "pr_details (ls_results (import_one ?fl ''ws'' (first_iteration ?s0) ?b))
        = pr_details (ls_results (first_iteration ?s0))
            @ [ImportErrorDetail (pf_name ?b)
         ''cannot access local variable 'new_dataset_id' where it is not associated with a value''] \<and>
      pr_failed (ls_results (import_one ?fl ''ws'' (first_iteration ?s0) ?b))
        = pr_failed (ls_results (first_iteration ?s0)) + 1 \<and>
      pr_imported (ls_results (import_one ?fl ''ws'' (first_iteration ?s0) ?b))
        = pr_imported (ls_results (first_iteration ?s0)) + 1"
  proof -
    have p1: "import_pbix ?fl ''ws'' ?b
        (Some (fst (resolve_name (stem ?b) (ls_existing_datasets (first_iteration ?s0)))))
        (ls_st (first_iteration ?s0))
      = (True, \<lparr>world = 1, calls = [GetDatasets ''ws'', PostImport ''ws'' ''b'']\<rparr>)"
      unfolding rn using u1 by (simp add: first_iteration_def)
    have p3: "ls_new_dataset_id (first_iteration ?s0) = Unbound"
      by (simp add: first_iteration_def)
    show ?thesis
      using instu p1 u2 p3 by blast
  qed
  have u2': "fst (get_datasets ?fl ''ws''
      \<lparr>world = 1, calls = [GetDatasets ''ws'', PostImport ''ws'' ''b'']\<rparr>) = Inl (RemoteError ''503'')"
    using u2 by simp
  show ?thesis
    using ex gl st d found im fl msg mp b1 b3 f1 u1 u2' bstep fstep ustep rn
    by (simp add: first_iteration_def)
qed

text \<open>
  Claim C1, on the input of the specification: the target holds the names \<^verbatim>\<open>A\<close> and
  \<^verbatim>\<open>A_2\<close> and the file \<^verbatim>\<open>A.pbix\<close> is imported. The counter of the Reports phase starts
  at 1, so the phase resolves the name to \<^verbatim>\<open>A_1\<close>, records it and counts one handled
  duplicate. The loop of \<^verbatim>\<open>import_pbix\<close> counts from 2 and sends the request for
  \<^verbatim>\<open>A_3\<close>; the phase then looks for \<^verbatim>\<open>A_1\<close> in the listing, finds nothing and records
  no mapping.
\<close>

theorem duplicate_name_resolved_with_suffix_1:
  "resolve_name ''A'' [Some ''A'', Some ''A_2''] = (''A_1'', True) \<and>
   unique_display_name ''A'' [Some ''A'', Some ''A_2''] = ''A_3'' \<and>
   pr_details (fst (restore_reports_pbix (sim_api [''A.pbix''] stat_ok) ''ws'' ''reports''
      (workspace_with [''A'', ''A_2''])))
     = [ImportedDetail ''A.pbix'' ''A_1'' ''A'' ''pending'' 2048] \<and>
   pr_duplicate_handled (fst (restore_reports_pbix (sim_api [''A.pbix''] stat_ok) ''ws'' ''reports''
      (workspace_with [''A'', ''A_2'']))) = 1 \<and>
   pr_dataset_id_mapping (fst (restore_reports_pbix (sim_api [''A.pbix''] stat_ok) ''ws'' ''reports''
      (workspace_with [''A'', ''A_2'']))) = [] \<and>
   calls (snd (restore_reports_pbix (sim_api [''A.pbix''] stat_ok) ''ws'' ''reports''
      (workspace_with [''A'', ''A_2''])))
     = [GetDatasets ''ws'', GetDatasets ''ws'', PostImport ''ws'' ''A_3'', GetDatasets ''ws'']"
proof -
  have r: "resolve_name ''A'' [Some ''A'', Some ''A_2''] = (''A_1'', True)"
    by code_simp
  have u: "unique_display_name ''A'' [Some ''A'', Some ''A_2''] = ''A_3''"
    by code_simp
  show ?thesis
    using r u by (simp add: run_A)
qed

text \<open>
  Claim C9. \<^verbatim>\<open>restore_pbix_files\<close> raises \<^verbatim>\<open>TypeError\<close> for every backup folder and
  every target workspace, in every state, and does nothing else: it calls
  \<^verbatim>\<open>restore_reports_pbix\<close> with three arguments where two are accepted, and its handler
  re-raises.
\<close>

theorem restore_pbix_files_always_raises:
  "restore_pbix_files api backup_folder target_workspace_id s =
     (Inl (TypeError
        ''ReportsRestoreService.restore_reports_pbix() takes 3 positional arguments but 4 were given''),
      s)"
  by (simp add: restore_pbix_files_def call_restore_reports_pbix_def Let_def str_nat.simps
      digit_char_def)

section \<open>Properties of the orchestrator\<close>

lemma doc_phase_eq:
  "doc_phase service key ws items comps s =
     (dict_set comps key (case fst (service ws (get_or items (JList [])) s) of
                            Inl e \<Rightarrow> FailedComponent (str_of_error e)
                          | Inr r \<Rightarrow> DocComponent r),
      snd (service ws (get_or items (JList [])) s))"
  by (simp add: doc_phase_def split: prod.splits sum.splits)

lemma refresh_phase_eq:
  "refresh_schedules_phase svc ws backup m comps s =
     (dict_set comps ''refresh_schedules''
        (case fst (refresh_schedules_service svc ws (get_or (bd_refresh_schedules backup) []) (Some m) s) of
           Inl e \<Rightarrow> FailedComponent (str_of_error e)
         | Inr r \<Rightarrow> SchedulesComponent r),
      snd (refresh_schedules_service svc ws (get_or (bd_refresh_schedules backup) []) (Some m) s))"
  by (simp add: refresh_schedules_phase_def split: prod.splits sum.splits)

lemma reports_phase_eq:
  "reports_phase svc ws backup [] s =
     (([(''reports'',
         case fst (reports_service svc ws (get_or (bd_reports backup) (JList [])) s) of
           Inl e \<Rightarrow> FailedComponent (str_of_error e)
         | Inr r \<Rightarrow> (case get_dataset_id_mapping r of
                       Inl e \<Rightarrow> FailedComponent (str_of_error e)
                     | Inr m \<Rightarrow> ReportsComponent r))],
       case fst (reports_service svc ws (get_or (bd_reports backup) (JList [])) s) of
         Inl e \<Rightarrow> []
       | Inr r \<Rightarrow> (case get_dataset_id_mapping r of Inl e \<Rightarrow> [] | Inr m \<Rightarrow> m)),
      snd (reports_service svc ws (get_or (bd_reports backup) (JList [])) s))"
  by (simp add: reports_phase_def Let_def split: prod.splits sum.splits)

lemmas json_defs = restore_datasets_def restore_dashboards_def restore_dataflows_def
  restore_apps_def restore_reports_def and_then_def dataset_step_def dataset_body_def
  dataflow_step_def dataflow_body_def dashboard_step_def dashboard_body_def app_step_def
  app_body_def error_record_def document_key_def complete_restore_service_def
  enhanced_backup_def

text \<open>
  Claim C4. For any six services, the orchestrated run calls them in the fixed order,
  each from the state its predecessor left, whether or not the predecessor raised. The
  report ends with status \<^verbatim>\<open>completed\<close> and has exactly one entry per phase: the failed
  record with the text of the exception when the phase raised (for the reports phase
  also when reading the mapping from its result raised), its result otherwise. The final
  state is the one the sixth service left.
\<close>

theorem phase_failures_isolated:
  "(let o1 = reports_service svc ws (get_or (bd_reports backup) (JList [])) s;
        o2 = datasets_service svc ws (get_or (bd_datasets backup) (JList [])) (snd o1);
        dataset_id_mapping =
          (case fst o1 of
             Inl e \<Rightarrow> []
           | Inr r \<Rightarrow> (case get_dataset_id_mapping r of Inl e \<Rightarrow> [] | Inr m \<Rightarrow> m));
        o3 = refresh_schedules_service svc ws (get_or (bd_refresh_schedules backup) [])
               (Some dataset_id_mapping) (snd o2);
        o4 = dashboards_service svc ws (get_or (bd_dashboards backup) (JList [])) (snd o3);
        o5 = dataflows_service svc ws (get_or (bd_dataflows backup) (JList [])) (snd o4);
        o6 = apps_service svc ws (get_or (bd_apps backup) (JList [])) (snd o5);
        out = restore_all_components svc ws backup s
    in rp_status (fst out) = ''completed'' \<and>
       snd out = snd o6 \<and>
       rp_components (fst out) =
         [(''reports'',
           case fst o1 of
             Inl e \<Rightarrow> FailedComponent (str_of_error e)
           | Inr r \<Rightarrow> (case get_dataset_id_mapping r of
                         Inl e \<Rightarrow> FailedComponent (str_of_error e)
                       | Inr m \<Rightarrow> ReportsComponent r)),
          (''datasets'',
           case fst o2 of Inl e \<Rightarrow> FailedComponent (str_of_error e) | Inr r \<Rightarrow> DocComponent r),
          (''refresh_schedules'',
           case fst o3 of Inl e \<Rightarrow> FailedComponent (str_of_error e) | Inr r \<Rightarrow> SchedulesComponent r),
          (''dashboards'',
           case fst o4 of Inl e \<Rightarrow> FailedComponent (str_of_error e) | Inr r \<Rightarrow> DocComponent r),
          (''dataflows'',
           case fst o5 of Inl e \<Rightarrow> FailedComponent (str_of_error e) | Inr r \<Rightarrow> DocComponent r),
          (''apps'',
           case fst o6 of Inl e \<Rightarrow> FailedComponent (str_of_error e) | Inr r \<Rightarrow> DocComponent r)])"
  by (simp add: restore_all_components_def reports_phase_eq doc_phase_eq refresh_phase_eq Let_def)

text \<open>
  Claim C4 on the enhanced backup: the datasets phase raises on the dictionary, the
  dashboards phase on \<^verbatim>\<open>null\<close>; the refresh schedules and the apps phase still run.
\<close>

theorem phase_failures_isolated_witness:
  "fst (datasets_service (complete_restore_service (fixed_api (Inr ''token'') (Inr listing_X) (Inr 200)))
          ''ws'' (get_or (bd_datasets enhanced_backup) (JList [])) start)
     = Inl (AttributeError ([squote_char] @ ''str'' @ [squote_char] @ '' object has no attribute ''
              @ [squote_char] @ ''get'' @ [squote_char])) \<and>
   map fst (rp_components (fst (restore_all_components
       (complete_restore_service (fixed_api (Inr ''token'') (Inr listing_X) (Inr 200)))
       ''ws'' enhanced_backup start)))
     = [''reports'', ''datasets'', ''refresh_schedules'', ''dashboards'', ''dataflows'', ''apps''] \<and>
   map_of (rp_components (fst (restore_all_components
       (complete_restore_service (fixed_api (Inr ''token'') (Inr listing_X) (Inr 200)))
       ''ws'' enhanced_backup start))) ''datasets''
     = Some (FailedComponent ([squote_char] @ ''str'' @ [squote_char] @ '' object has no attribute ''
              @ [squote_char] @ ''get'' @ [squote_char])) \<and>
   map_of (rp_components (fst (restore_all_components
       (complete_restore_service (fixed_api (Inr ''token'') (Inr listing_X) (Inr 200)))
       ''ws'' enhanced_backup start))) ''refresh_schedules''
     = Some (SchedulesComponent
         \<lparr>rr_status = ''completed'', rr_restored = 1, rr_failed = 0, rr_skipped = 0,
          rr_details = [ConfiguredDetail (Some ''X'') ''id-x'' ''unknown'' [''01:00''] [''Monday'']]\<rparr>) \<and>
   map_of (rp_components (fst (restore_all_components
       (complete_restore_service (fixed_api (Inr ''token'') (Inr listing_X) (Inr 200)))
       ''ws'' enhanced_backup start))) ''apps''
     = Some (DocComponent (JDict [(''status'', JStr ''documented''), (''total_apps'', JInt 0),
                                  (''details'', JList [])]))"
proof -
  let ?api = "fixed_api (Inr ''token'') (Inr listing_X) (Inr 200)"
  let ?svc = "complete_restore_service ?api"
  have o2: "datasets_service ?svc ''ws'' (get_or (bd_datasets enhanced_backup) (JList [])) start
     = (Inl (AttributeError ([squote_char] @ ''str'' @ [squote_char] @ '' object has no attribute ''
              @ [squote_char] @ ''get'' @ [squote_char])), start)"
    by (simp add: json_defs get_or_def)
  have o1: "snd (reports_service ?svc ''ws'' (get_or (bd_reports enhanced_backup) (JList [])) start) = start"
    by (simp add: json_defs)
  have m: "(case fst (reports_service ?svc ''ws'' (get_or (bd_reports enhanced_backup) (JList [])) start) of
             Inl e \<Rightarrow> []
           | Inr r \<Rightarrow> (case get_dataset_id_mapping r of Inl e \<Rightarrow> [] | Inr m \<Rightarrow> m)) = []"
    by (simp add: json_defs get_or_def)
  have o3: "refresh_schedules_service ?svc ''ws'' (get_or (bd_refresh_schedules enhanced_backup) [])
              (Some []) start
     = (Inr \<lparr>rr_status = ''completed'', rr_restored = 1, rr_failed = 0, rr_skipped = 0,
          rr_details = [ConfiguredDetail (Some ''X'') ''id-x'' ''unknown'' [''01:00''] [''Monday'']]\<rparr>,
        \<lparr>world = (), calls = [GetDatasets ''ws'',
           PatchRefreshSchedule ''ws'' ''id-x''
             \<lparr>p_days = [''Monday''], p_times = [''01:00''], p_enabled = True,
              p_localTimeZoneId = ''UTC'', p_notifyOption = ''MailOnFailure''\<rparr>]\<rparr>)"
    by (simp add: complete_restore_service_def enhanced_backup_def run_defs)
  have o6: "fst (apps_service ?svc ''ws'' (get_or (bd_apps enhanced_backup) (JList [])) st)
     = Inr (JDict [(''status'', JStr ''documented''), (''total_apps'', JInt 0), (''details'', JList [])])"
    for st
    by (simp add: json_defs get_or_def)
  show ?thesis
    using phase_failures_isolated [of ?svc "''ws''" enhanced_backup start]
    by (simp add: Let_def o1 o2 m o3 o6)
qed

text \<open>
  Claim C3, as the code behaves. The orchestrator calls the legacy \<^verbatim>\<open>restore_reports\<close>,
  which returns a count; reading \<^verbatim>\<open>dataset_id_mapping\<close> from the count raises, so for every
  backup the reports entry is a failed record and the RefreshSchedules phase is called
  with the empty dictionary of line 710. No mapping of imported items ever reaches it.
\<close>

theorem orchestrator_passes_empty_mapping:
  "map_of (rp_components (fst (restore_all_components (complete_restore_service api) ws backup s)))
     ''reports''
     = Some (FailedComponent
         (case py_len (get_or (bd_reports backup) (JList [])) of
            Inl e \<Rightarrow> str_of_error e
          | Inr n \<Rightarrow> [squote_char] @ ''int'' @ [squote_char] @ '' object has no attribute ''
                     @ [squote_char] @ ''get'' @ [squote_char])) \<and>
   map_of (rp_components (fst (restore_all_components (complete_restore_service api) ws backup s)))
     ''refresh_schedules''
     = Some (SchedulesComponent
         (fst (restore_refresh_schedules api ws (get_or (bd_refresh_schedules backup) []) (Some []) s)))"
  by (simp add: restore_all_components_def reports_phase_eq doc_phase_eq refresh_phase_eq Let_def
      complete_restore_service_def restore_reports_def and_then_def
      split: sum.splits prod.splits)

end
